theory Spec2Isabelle
  imports Complex_Main "HOL-Library.AList" "HOL-Library.Multiset"
begin

section \<open>Python values and errors\<close>

text \<open>
  The exceptions the modelled code can raise. \<open>ValueError\<close> carries the message of the
  \<^verbatim>\<open>raise ValueError("...")\<close> in \<^verbatim>\<open>Recipe.scale_recipe\<close> (the specification calls
  that failure InvalidScaleError); \<open>KeyError\<close> carries the missing key.
  \<open>OutsideModel\<close> is not a Python exception. The records below are typed by the
  annotations of the dataclasses, and Python checks none of them: a value whose dynamic
  type does not fit the annotated field cannot be stored in the typed record, and the
  model stops there with \<open>OutsideModel\<close>. It does the same for \<^verbatim>\<open>str(x)\<close> of a float or
  a container, whose text is not modelled.
  \<open>OverflowError\<close> and \<open>ZeroDivisionError\<close> are those of the division \<^verbatim>\<open>/\<close> of two
  integers; a \<open>ValueError\<close> is also what the conversion of an integer of too many digits
  to text raises.
\<close>

datatype error =
    ValueError string
  | KeyError string
  | TypeError
  | AttributeError
  | IndexError
  | OverflowError
  | ZeroDivisionError
  | OutsideModel

text \<open>A JSON-like Python value: what \<^verbatim>\<open>response.json()\<close> yields and \<^verbatim>\<open>to_dict\<close> builds.
  A dict is an association list in insertion order, its keys distinct.\<close>

datatype json =
    JNull
  | JBool bool
  | JInt int
  | JFloat real
  | JStr string
  | JList "json list"
  | JDict "(string \<times> json) list"

text \<open>Sequencing of computations that may raise: the first exception ends the run.\<close>

fun bind_e :: "error + 'a \<Rightarrow> ('a \<Rightarrow> error + 'b) \<Rightarrow> error + 'b" where
  "bind_e (Inl e) f = Inl e"
| "bind_e (Inr v) f = f v"

fun map_e :: "('a \<Rightarrow> error + 'b) \<Rightarrow> 'a list \<Rightarrow> error + 'b list" where
  "map_e f [] = Inr []"
| "map_e f (x # xs) = bind_e (f x) (\<lambda>y. bind_e (map_e f xs) (\<lambda>ys. Inr (y # ys)))"

subsection \<open>Built-in operations of Python on these values\<close>

text \<open>Truth value of an object, as \<^verbatim>\<open>if x:\<close> and \<^verbatim>\<open>not x\<close> test it.\<close>

fun truthy :: "json \<Rightarrow> bool" where
  "truthy JNull = False"
| "truthy (JBool b) = b"
| "truthy (JInt i) = (i \<noteq> 0)"
| "truthy (JFloat x) = (x \<noteq> 0)"
| "truthy (JStr s) = (s \<noteq> [])"
| "truthy (JList xs) = (xs \<noteq> [])"
| "truthy (JDict kvs) = (kvs \<noteq> [])"

text \<open>\<^verbatim>\<open>d.get(key, default)\<close> on a dict.\<close>

definition dict_get :: "(string \<times> json) list \<Rightarrow> string \<Rightarrow> json \<Rightarrow> json" where
  "dict_get kvs k d = (case map_of kvs k of Some v \<Rightarrow> v | None \<Rightarrow> d)"

text \<open>\<^verbatim>\<open>x.get(key, default)\<close> on any value: only a dict has the method.\<close>

fun py_get :: "json \<Rightarrow> string \<Rightarrow> json \<Rightarrow> error + json" where
  "py_get (JDict kvs) k d = Inr (dict_get kvs k d)"
| "py_get _ k d = Inl AttributeError"

text \<open>\<^verbatim>\<open>x[key]\<close> with a string key.\<close>

fun py_getitem :: "json \<Rightarrow> string \<Rightarrow> error + json" where
  "py_getitem (JDict kvs) k = (case map_of kvs k of Some v \<Rightarrow> Inr v | None \<Rightarrow> Inl (KeyError k))"
| "py_getitem _ k = Inl TypeError"

text \<open>\<^verbatim>\<open>x[0]\<close>.\<close>

fun py_index0 :: "json \<Rightarrow> error + json" where
  "py_index0 (JList []) = Inl IndexError"
| "py_index0 (JList (x # xs)) = Inr x"
| "py_index0 (JStr []) = Inl IndexError"
| "py_index0 (JStr (c # cs)) = Inr (JStr [c])"
| "py_index0 (JDict kvs) = Inl (KeyError ''0'')"
| "py_index0 _ = Inl TypeError"

text \<open>The elements a \<^verbatim>\<open>for\<close> loop visits: of a list its items, of a dict its keys, of a
  string its characters.\<close>

fun py_iter :: "json \<Rightarrow> error + json list" where
  "py_iter (JList xs) = Inr xs"
| "py_iter (JDict kvs) = Inr (map (\<lambda>kv. JStr (fst kv)) kvs)"
| "py_iter (JStr s) = Inr (map (\<lambda>c. JStr [c]) s)"
| "py_iter _ = Inl TypeError"

text \<open>
  Strings are ASCII text, a \<open>char\<close> for a character: \<^verbatim>\<open>str.lower\<close> maps the letters A to Z,
  and the white space of \<^verbatim>\<open>str.split()\<close> is the characters 9 to 13 and 28 to 32.
  Text beyond ASCII is outside the model: Python also lowers the capitals there and
  splits at the white space there, such as U+0085 and U+00A0.
\<close>

definition lower_char :: "char \<Rightarrow> char" where
  "lower_char c =
     (case map_of (zip ''ABCDEFGHIJKLMNOPQRSTUVWXYZ'' ''abcdefghijklmnopqrstuvwxyz'') c of
        Some l \<Rightarrow> l
      | None \<Rightarrow> c)"

definition lower :: "string \<Rightarrow> string" where
  "lower s = map lower_char s"

definition isspace :: "char \<Rightarrow> bool" where
  "isspace c = (let n = (of_char c :: nat) in (9 \<le> n \<and> n \<le> 13) \<or> (28 \<le> n \<and> n \<le> 32))"

text \<open>\<^verbatim>\<open>s.split()\<close>: the maximal runs of characters that are not white space; \<open>w\<close> is the
  run being read.\<close>

fun split_acc :: "string \<Rightarrow> string \<Rightarrow> string list" where
  "split_acc w [] = (if w = [] then [] else [w])"
| "split_acc w (c # cs) =
     (if isspace c then (if w = [] then split_acc [] cs else w # split_acc [] cs)
      else split_acc (w @ [c]) cs)"

definition split :: "string \<Rightarrow> string list" where
  "split s = split_acc [] s"

text \<open>\<^verbatim>\<open>x.lower()\<close> on any value: only a string has the method.\<close>

fun py_lower :: "json \<Rightarrow> error + string" where
  "py_lower (JStr s) = Inr (lower s)"
| "py_lower _ = Inl AttributeError"

text \<open>\<^verbatim>\<open>sub in s\<close> on strings.\<close>

definition starts_with :: "string \<Rightarrow> string \<Rightarrow> bool" where
  "starts_with s p = (take (length p) s = p)"

fun contains :: "string \<Rightarrow> string \<Rightarrow> bool" where
  "contains sub [] = (sub = [])"
| "contains sub (c # cs) = (starts_with (c # cs) sub \<or> contains sub cs)"

text \<open>\<^verbatim>\<open>key in x\<close> with a string key: a key of a dict, an item of a list, a substring of a
  string.\<close>

fun py_in :: "string \<Rightarrow> json \<Rightarrow> error + bool" where
  "py_in k (JDict kvs) = Inr (map_of kvs k \<noteq> None)"
| "py_in k (JList xs) = Inr (JStr k \<in> set xs)"
| "py_in k (JStr s) = Inr (contains k s)"
| "py_in k _ = Inl TypeError"

subsection \<open>Decimal text of an integer, as \<^verbatim>\<open>str(n)\<close> and an f-string produce it\<close>

definition digit :: "nat \<Rightarrow> char" where
  "digit d = ''0123456789'' ! (d mod 10)"

fun str_nat :: "nat \<Rightarrow> string" where
  "str_nat n = (if n < 10 then [digit n] else str_nat (n div 10) @ [digit (n mod 10)])"

declare str_nat.simps [simp del]

definition str_int :: "int \<Rightarrow> string" where
  "str_int i = (if i < 0 then CHR ''-'' # str_nat (nat (- i)) else str_nat (nat i))"

text \<open>
  The interpreter refuses to convert an integer of more than
  \<^verbatim>\<open>sys.get_int_max_str_digits()\<close> decimal digits to text (the sign not counted): 4300
  unless it is configured otherwise, and 0 when there is no limit, as in the versions
  that came before the limit. \<open>max_str_digits\<close> is that setting, an argument of every
  function that formats an integer: \<^verbatim>\<open>str(i)\<close> and \<^verbatim>\<open>f"{i}"\<close> are \<open>py_str_int\<close>.
\<close>

definition py_str_int :: "nat \<Rightarrow> int \<Rightarrow> error + string" where
  "py_str_int max_str_digits i =
     (if 0 < max_str_digits \<and> max_str_digits < length (str_nat (nat \<bar>i\<bar>))
      then Inl (ValueError (''Exceeds the limit ('' @ str_nat max_str_digits
             @ '' digits) for integer string conversion; use sys.set_int_max_str_digits() to increase the limit''))
      else Inr (str_int i))"

text \<open>\<^verbatim>\<open>str(x)\<close>.\<close>

fun py_str :: "nat \<Rightarrow> json \<Rightarrow> error + string" where
  "py_str max_str_digits JNull = Inr ''None''"
| "py_str max_str_digits (JBool b) = Inr (if b then ''True'' else ''False'')"
| "py_str max_str_digits (JInt i) = py_str_int max_str_digits i"
| "py_str max_str_digits (JStr s) = Inr s"
| "py_str max_str_digits _ = Inl OutsideModel"

text \<open>
  \<^verbatim>\<open>a / b\<close> on two integers: the quotient rounded to the nearest float, and an
  \<^verbatim>\<open>OverflowError\<close> when that is beyond the largest float, which is from
  \<open>2 ^ 1024 - 2 ^ 970\<close> on, half-way between the largest float and \<open>2 ^ 1024\<close>. Floats
  are real numbers here, so within the range the model keeps the quotient itself.
\<close>

definition float_overflow_bound :: int where
  "float_overflow_bound = 2 ^ 1024 - 2 ^ 970"

definition py_true_div :: "int \<Rightarrow> int \<Rightarrow> error + real" where
  "py_true_div a b =
     (if b = 0 then Inl ZeroDivisionError
      else if float_overflow_bound * \<bar>b\<bar> \<le> \<bar>a\<bar> then Inl OverflowError
      else Inr (real_of_int a / real_of_int b))"

subsection \<open>Reading a value at the type a dataclass field is annotated with\<close>

fun as_str :: "json \<Rightarrow> error + string" where
  "as_str (JStr s) = Inr s"
| "as_str _ = Inl OutsideModel"

fun as_opt_str :: "json \<Rightarrow> error + string option" where
  "as_opt_str JNull = Inr None"
| "as_opt_str (JStr s) = Inr (Some s)"
| "as_opt_str _ = Inl OutsideModel"

fun as_int :: "json \<Rightarrow> error + int" where
  "as_int (JInt i) = Inr i"
| "as_int _ = Inl OutsideModel"

fun as_float :: "json \<Rightarrow> error + real" where
  "as_float (JFloat x) = Inr x"
| "as_float (JInt i) = Inr (real_of_int i)"
| "as_float _ = Inl OutsideModel"

fun as_opt_float :: "json \<Rightarrow> error + real option" where
  "as_opt_float JNull = Inr None"
| "as_opt_float (JFloat x) = Inr (Some x)"
| "as_opt_float (JInt i) = Inr (Some (real_of_int i))"
| "as_opt_float _ = Inl OutsideModel"

fun as_str_list :: "json \<Rightarrow> error + string list" where
  "as_str_list (JList xs) = map_e as_str xs"
| "as_str_list _ = Inl OutsideModel"

definition of_opt_str :: "string option \<Rightarrow> json" where
  "of_opt_str x = (case x of None \<Rightarrow> JNull | Some s \<Rightarrow> JStr s)"

definition of_opt_float :: "real option \<Rightarrow> json" where
  "of_opt_float x = (case x of None \<Rightarrow> JNull | Some v \<Rightarrow> JFloat v)"

definition of_str_list :: "string list \<Rightarrow> json" where
  "of_str_list xs = JList (map JStr xs)"

section \<open>shared/types/recipe.py\<close>

record Ingredient =
  name :: string
  amount :: real
  unit :: string
  notes' :: "string option"

record NutritionInfo =
  calories_per_serving :: "real option"
  protein_grams :: "real option"
  carbs_grams :: "real option"
  fat_grams :: "real option"
  fiber_grams :: "real option"
  sugar_grams :: "real option"

text \<open>
  The type \<open>'dt\<close> stands for \<^verbatim>\<open>datetime\<close>, a class of the standard library; the two
  timestamps are filled by \<^verbatim>\<open>datetime.now\<close> when the constructor is not given them,
  and the model takes these two readings of the clock as arguments.
  The field \<^verbatim>\<open>id\<close> is \<open>id'\<close> here, \<^verbatim>\<open>notes\<close> is \<open>notes'\<close>.

  The fields that hold mutable objects have a type parameter each: \<open>'sl\<close> for the three
  lists of strings, \<open>'il\<close> for the list of ingredients, \<open>'n\<close> for the \<^verbatim>\<open>NutritionInfo\<close>.
  In \<open>recipe\<close> they hold the contents themselves, which is all that a function of the
  contents needs; in \<open>recipe_obj\<close> they hold the addresses of the objects in a store.
\<close>

record ('dt, 'sl, 'il, 'n) Recipe =
  id' :: string
  title :: string
  description :: string
  cuisine_type :: "string option"
  dietary_tags :: 'sl
  prep_time_minutes :: int
  cook_time_minutes :: int
  total_time_minutes :: int
  servings :: int
  difficulty_level :: string
  ingredients :: 'il
  instructions :: 'sl
  nutrition :: "'n option"
  equipment_required :: 'sl
  image_url :: "string option"
  source_url :: "string option"
  source :: string
  created_at :: 'dt
  updated_at :: 'dt

type_synonym 'dt recipe = "('dt, string list, Ingredient list, NutritionInfo) Recipe"

type_synonym 'dt recipe_obj = "('dt, nat, nat, nat) Recipe"

subsection \<open>\<^verbatim>\<open>Ingredient.to_dict\<close>, \<^verbatim>\<open>Ingredient.from_dict\<close>\<close>

definition Ingredient_to_dict :: "Ingredient \<Rightarrow> json" where
  "Ingredient_to_dict self =
     JDict [(''name'', JStr (name self)),
            (''amount'', JFloat (amount self)),
            (''unit'', JStr (unit self)),
            (''notes'', of_opt_str (notes' self))]"

definition Ingredient_from_dict :: "json \<Rightarrow> error + Ingredient" where
  "Ingredient_from_dict data =
     bind_e (bind_e (py_getitem data ''name'') as_str) (\<lambda>n.
     bind_e (bind_e (py_getitem data ''amount'') as_float) (\<lambda>a.
     bind_e (bind_e (py_getitem data ''unit'') as_str) (\<lambda>u.
     bind_e (bind_e (py_get data ''notes'' JNull) as_opt_str) (\<lambda>nt.
     Inr \<lparr>name = n, amount = a, unit = u, notes' = nt\<rparr>))))"

subsection \<open>\<^verbatim>\<open>NutritionInfo.to_dict\<close> and the constructor \<^verbatim>\<open>NutritionInfo(**kwargs)\<close>\<close>

definition NutritionInfo_to_dict :: "NutritionInfo \<Rightarrow> json" where
  "NutritionInfo_to_dict self =
     JDict [(''calories_per_serving'', of_opt_float (calories_per_serving self)),
            (''protein_grams'', of_opt_float (protein_grams self)),
            (''carbs_grams'', of_opt_float (carbs_grams self)),
            (''fat_grams'', of_opt_float (fat_grams self)),
            (''fiber_grams'', of_opt_float (fiber_grams self)),
            (''sugar_grams'', of_opt_float (sugar_grams self))]"

definition nutrition_fields :: "string list" where
  "nutrition_fields =
     [''calories_per_serving'', ''protein_grams'', ''carbs_grams'', ''fat_grams'',
      ''fiber_grams'', ''sugar_grams'']"

text \<open>The generated \<^verbatim>\<open>__init__\<close>: every field defaults to \<^verbatim>\<open>None\<close>, a keyword that is
  not a field is a \<^verbatim>\<open>TypeError\<close>, and so is \<^verbatim>\<open>**x\<close> for an \<open>x\<close> that is no mapping.\<close>

fun NutritionInfo_kwargs :: "json \<Rightarrow> error + NutritionInfo" where
  "NutritionInfo_kwargs (JDict kvs) =
     (if list_all (\<lambda>kv. fst kv \<in> set nutrition_fields) kvs
      then
        bind_e (as_opt_float (dict_get kvs ''calories_per_serving'' JNull)) (\<lambda>c.
        bind_e (as_opt_float (dict_get kvs ''protein_grams'' JNull)) (\<lambda>p.
        bind_e (as_opt_float (dict_get kvs ''carbs_grams'' JNull)) (\<lambda>cb.
        bind_e (as_opt_float (dict_get kvs ''fat_grams'' JNull)) (\<lambda>f.
        bind_e (as_opt_float (dict_get kvs ''fiber_grams'' JNull)) (\<lambda>fb.
        bind_e (as_opt_float (dict_get kvs ''sugar_grams'' JNull)) (\<lambda>sg.
        Inr \<lparr>calories_per_serving = c, protein_grams = p, carbs_grams = cb,
             fat_grams = f, fiber_grams = fb, sugar_grams = sg\<rparr>))))))
      else Inl TypeError)"
| "NutritionInfo_kwargs _ = Inl TypeError"

subsection \<open>\<^verbatim>\<open>Recipe.to_dict\<close>, \<^verbatim>\<open>Recipe.from_dict\<close>\<close>

text \<open>
  \<^verbatim>\<open>datetime.isoformat\<close> and \<^verbatim>\<open>datetime.fromisoformat\<close> belong to the standard library
  and are arguments of the model: \<open>isoformat\<close> and \<open>fromisoformat\<close>, the second one
  raising on a text it cannot read. A \<^verbatim>\<open>NutritionInfo\<close> instance is always true in
  \<^verbatim>\<open>if self.nutrition\<close>: the dataclass defines neither \<^verbatim>\<open>__bool__\<close> nor \<^verbatim>\<open>__len__\<close>.
\<close>

definition Recipe_to_dict :: "('dt \<Rightarrow> string) \<Rightarrow> 'dt recipe \<Rightarrow> json" where
  "Recipe_to_dict isoformat self =
     JDict [(''id'', JStr (id' self)),
            (''title'', JStr (title self)),
            (''description'', JStr (description self)),
            (''cuisine_type'', of_opt_str (cuisine_type self)),
            (''dietary_tags'', of_str_list (dietary_tags self)),
            (''prep_time_minutes'', JInt (prep_time_minutes self)),
            (''cook_time_minutes'', JInt (cook_time_minutes self)),
            (''total_time_minutes'', JInt (total_time_minutes self)),
            (''servings'', JInt (servings self)),
            (''difficulty_level'', JStr (difficulty_level self)),
            (''ingredients'', JList (map Ingredient_to_dict (ingredients self))),
            (''instructions'', of_str_list (instructions self)),
            (''nutrition'',
               (case nutrition self of
                  Some n \<Rightarrow> NutritionInfo_to_dict n
                | None \<Rightarrow> JNull)),
            (''equipment_required'', of_str_list (equipment_required self)),
            (''image_url'', of_opt_str (image_url self)),
            (''source_url'', of_opt_str (source_url self)),
            (''source'', JStr (source self)),
            (''created_at'', JStr (isoformat (created_at self))),
            (''updated_at'', JStr (isoformat (updated_at self)))]"

text \<open>\<^verbatim>\<open>datetime.fromisoformat(x)\<close>: a \<^verbatim>\<open>TypeError\<close> when \<open>x\<close> is no string.\<close>

fun py_fromisoformat :: "(string \<Rightarrow> error + 'dt) \<Rightarrow> json \<Rightarrow> error + 'dt" where
  "py_fromisoformat fromisoformat (JStr s) = fromisoformat s"
| "py_fromisoformat fromisoformat _ = Inl TypeError"

text \<open>
  \<open>Recipe_from_items\<close> is the body of \<^verbatim>\<open>from_dict\<close> on a dict, \<open>data\<close> being its items;
  \<open>now_created\<close> and \<open>now_updated\<close> are what the two calls of \<^verbatim>\<open>datetime.now()\<close>
  return, whose text is the default of the two timestamps. On a value that is no dict
  the first statement, \<^verbatim>\<open>data.get("ingredients", [])\<close>, raises.
\<close>

definition Recipe_from_items ::
  "('dt \<Rightarrow> string) \<Rightarrow> (string \<Rightarrow> error + 'dt) \<Rightarrow> 'dt \<Rightarrow> 'dt \<Rightarrow> (string \<times> json) list
     \<Rightarrow> error + 'dt recipe" where
  "Recipe_from_items isoformat fromisoformat now_created now_updated data =
     bind_e (bind_e (py_iter (dict_get data ''ingredients'' (JList [])))
               (map_e Ingredient_from_dict)) (\<lambda>ings.
     bind_e (if truthy (dict_get data ''nutrition'' JNull)
             then bind_e (bind_e (py_getitem (JDict data) ''nutrition'') NutritionInfo_kwargs)
                    (\<lambda>n. Inr (Some n))
             else Inr None) (\<lambda>nutr.
     bind_e (bind_e (py_getitem (JDict data) ''id'') as_str) (\<lambda>i.
     bind_e (bind_e (py_getitem (JDict data) ''title'') as_str) (\<lambda>t.
     bind_e (as_str (dict_get data ''description'' (JStr ''''))) (\<lambda>d.
     bind_e (as_opt_str (dict_get data ''cuisine_type'' JNull)) (\<lambda>ct.
     bind_e (as_str_list (dict_get data ''dietary_tags'' (JList []))) (\<lambda>tags.
     bind_e (as_int (dict_get data ''prep_time_minutes'' (JInt 0))) (\<lambda>prep.
     bind_e (as_int (dict_get data ''cook_time_minutes'' (JInt 0))) (\<lambda>cook.
     bind_e (as_int (dict_get data ''total_time_minutes'' (JInt 0))) (\<lambda>total.
     bind_e (as_int (dict_get data ''servings'' (JInt 1))) (\<lambda>sv.
     bind_e (as_str (dict_get data ''difficulty_level'' (JStr ''intermediate''))) (\<lambda>dl.
     bind_e (as_str_list (dict_get data ''instructions'' (JList []))) (\<lambda>ins.
     bind_e (as_str_list (dict_get data ''equipment_required'' (JList []))) (\<lambda>eq.
     bind_e (as_opt_str (dict_get data ''image_url'' JNull)) (\<lambda>img.
     bind_e (as_opt_str (dict_get data ''source_url'' JNull)) (\<lambda>src_url.
     bind_e (as_str (dict_get data ''source'' (JStr ''unknown''))) (\<lambda>src.
     bind_e (py_fromisoformat fromisoformat
               (dict_get data ''created_at'' (JStr (isoformat now_created)))) (\<lambda>c.
     bind_e (py_fromisoformat fromisoformat
               (dict_get data ''updated_at'' (JStr (isoformat now_updated)))) (\<lambda>u.
     Inr \<lparr>id' = i, title = t, description = d, cuisine_type = ct, dietary_tags = tags,
          prep_time_minutes = prep, cook_time_minutes = cook, total_time_minutes = total,
          servings = sv, difficulty_level = dl, ingredients = ings, instructions = ins,
          nutrition = nutr, equipment_required = eq, image_url = img,
          source_url = src_url, source = src,
          created_at = c, updated_at = u\<rparr>)))))))))))))))))))"

definition Recipe_from_dict ::
  "('dt \<Rightarrow> string) \<Rightarrow> (string \<Rightarrow> error + 'dt) \<Rightarrow> 'dt \<Rightarrow> 'dt \<Rightarrow> json
     \<Rightarrow> error + 'dt recipe" where
  "Recipe_from_dict isoformat fromisoformat now_created now_updated data =
     (case data of
        JDict items \<Rightarrow> Recipe_from_items isoformat fromisoformat now_created now_updated items
      | _ \<Rightarrow> Inl AttributeError)"

subsection \<open>\<^verbatim>\<open>Recipe.scale_recipe\<close>\<close>

text \<open>
  Amounts are \<^verbatim>\<open>float\<close> in Python and real numbers here; \<^verbatim>\<open>new_servings / self.servings\<close>
  is Python's true division of two integers, which raises when the quotient is out of
  the range of floats. The product \<^verbatim>\<open>ingredient.amount * scale_factor\<close> of two floats never
  raises. The two f-strings format \<^verbatim>\<open>new_servings\<close>, the one of \<^verbatim>\<open>id\<close> first.
\<close>

definition scale_ingredient :: "real \<Rightarrow> Ingredient \<Rightarrow> Ingredient" where
  "scale_ingredient scale_factor ingredient =
     \<lparr>name = name ingredient,
      amount = amount ingredient * scale_factor,
      unit = unit ingredient,
      notes' = notes' ingredient\<rparr>"

definition scale_recipe ::
  "nat \<Rightarrow> 'dt \<Rightarrow> 'dt \<Rightarrow> 'dt recipe \<Rightarrow> int \<Rightarrow> error + 'dt recipe" where
  "scale_recipe max_str_digits now_created now_updated self new_servings =
     (if servings self \<le> 0
      then Inl (ValueError ''Cannot scale recipe with zero or negative servings'')
      else
        bind_e (py_true_div new_servings (servings self)) (\<lambda>scale_factor.
        let scaled_ingredients = map (scale_ingredient scale_factor) (ingredients self)
        in
        bind_e (py_str_int max_str_digits new_servings) (\<lambda>id_servings.
        bind_e (py_str_int max_str_digits new_servings) (\<lambda>title_servings.
        Inr
          \<lparr>id' = id' self @ ''_scaled_'' @ id_servings,
           title = title self @ '' (serves '' @ title_servings @ '')'',
           description = description self,
           cuisine_type = cuisine_type self,
           dietary_tags = dietary_tags self,
           prep_time_minutes = prep_time_minutes self,
           cook_time_minutes = cook_time_minutes self,
           total_time_minutes = total_time_minutes self,
           servings = new_servings,
           difficulty_level = difficulty_level self,
           ingredients = scaled_ingredients,
           instructions = instructions self,
           nutrition = nutrition self,
           equipment_required = equipment_required self,
           image_url = image_url self,
           source_url = source_url self,
           source = source self,
           created_at = now_created,
           updated_at = now_updated\<rparr>))))"

text \<open>The recipe of \<^verbatim>\<open>test_recipe_scale\<close> in \<^verbatim>\<open>tests/test_shared/test_recipe_models.py\<close>,
  constructed at the clock readings \<open>tc\<close> and \<open>tu\<close>.\<close>

definition original_recipe :: "'dt \<Rightarrow> 'dt \<Rightarrow> 'dt recipe" where
  "original_recipe tc tu =
     \<lparr>id' = ''scale_test'', title = ''Original Recipe'', description = '''',
      cuisine_type = None, dietary_tags = [],
      prep_time_minutes = 0, cook_time_minutes = 0, total_time_minutes = 0,
      servings = 4, difficulty_level = ''intermediate'',
      ingredients =
        [\<lparr>name = ''flour'', amount = 2, unit = ''cups'', notes' = None\<rparr>,
         \<lparr>name = ''sugar'', amount = 1, unit = ''cup'', notes' = None\<rparr>],
      instructions = [], nutrition = None, equipment_required = [],
      image_url = None, source_url = None, source = ''unknown'',
      created_at = tc, updated_at = tu\<rparr>"

section \<open>servers/recipe_api_server/src/tools/search_recipes.py\<close>

subsection \<open>\<^verbatim>\<open>_sort_by_relevance\<close>\<close>

text \<open>
  The inner function \<^verbatim>\<open>relevance_score\<close>; a recipe is any value, and a value without
  \<^verbatim>\<open>get\<close>, or a title or description without \<^verbatim>\<open>lower\<close>, raises. \<^verbatim>\<open>len\<close> of a set is
  \<open>card\<close>.
\<close>

definition relevance_score :: "string set \<Rightarrow> json \<Rightarrow> error + nat" where
  "relevance_score query_words recipe =
     bind_e (bind_e (py_get recipe ''title'' (JStr '''')) py_lower) (\<lambda>t.
     bind_e (bind_e (py_get recipe ''description'' (JStr '''')) py_lower) (\<lambda>d.
       let title_words = set (split t);
           description_words = set (split d);
           title_matches = card (query_words \<inter> title_words);
           description_matches = card (query_words \<inter> description_words)
       in Inr (title_matches * 2 + description_matches)))"

text \<open>
  \<^verbatim>\<open>sorted(xs, key=key, reverse=True)\<close>. The built-in computes the key of every item first,
  in the order of the list, so the first key that raises ends the call; then it reverses
  the list, sorts it by ascending key with a stable sort, and reverses the result.
  \<open>sort_key\<close> is the stable insertion sort of the HOL library.
\<close>

definition sorted_reverse :: "('a \<Rightarrow> error + nat) \<Rightarrow> 'a list \<Rightarrow> error + 'a list" where
  "sorted_reverse key xs =
     bind_e (map_e key xs) (\<lambda>ks. Inr (map snd (rev (sort_key fst (rev (zip ks xs))))))"

definition sort_by_relevance :: "json list \<Rightarrow> string \<Rightarrow> error + json list" where
  "sort_by_relevance recipes query =
     (let query_words = set (split (lower query))
      in sorted_reverse (relevance_score query_words) recipes)"

text \<open>The three recipes of \<^verbatim>\<open>test_sort_by_relevance\<close>.\<close>

definition beef_stroganoff :: json where
  "beef_stroganoff =
     JDict [(''title'', JStr ''Beef Stroganoff''), (''description'', JStr ''Creamy beef dish'')]"

definition chicken_parmesan :: json where
  "chicken_parmesan =
     JDict [(''title'', JStr ''Chicken Parmesan''),
            (''description'', JStr ''Italian chicken with parmesan'')]"

definition parmesan_chicken_salad :: json where
  "parmesan_chicken_salad =
     JDict [(''title'', JStr ''Parmesan Chicken Salad''),
            (''description'', JStr ''Fresh salad with chicken'')]"

text \<open>
  The score as the specification words it, for a result with the title \<open>t\<close> and the
  description \<open>d\<close>: twice the number of query tokens among the title's words plus the
  number of query tokens among the description's words, the tokens of a text being the
  set of the words of its lower-cased form.
\<close>

definition tokens :: "string \<Rightarrow> string set" where
  "tokens s = set (split (lower s))"

definition score_spec :: "string \<Rightarrow> string \<Rightarrow> string \<Rightarrow> nat" where
  "score_spec query t d = 2 * card (tokens query \<inter> tokens t) + card (tokens query \<inter> tokens d)"

text \<open>A result whose title and description are strings where it has them, and the two
  texts that \<^verbatim>\<open>recipe.get(key, "")\<close> then yields.\<close>

fun text_field :: "json \<Rightarrow> string \<Rightarrow> string option" where
  "text_field (JDict kvs) k =
     (case dict_get kvs k (JStr '''') of JStr s \<Rightarrow> Some s | _ \<Rightarrow> None)"
| "text_field _ k = None"

definition scorable :: "json \<Rightarrow> bool" where
  "scorable recipe = (text_field recipe ''title'' \<noteq> None \<and> text_field recipe ''description'' \<noteq> None)"

definition title_of :: "json \<Rightarrow> string" where
  "title_of recipe = (case text_field recipe ''title'' of Some s \<Rightarrow> s | None \<Rightarrow> [])"

definition description_of :: "json \<Rightarrow> string" where
  "description_of recipe = (case text_field recipe ''description'' of Some s \<Rightarrow> s | None \<Rightarrow> [])"

text \<open>The key of an item once its computation has returned (0 stands in where it raised).\<close>

definition key_of :: "('a \<Rightarrow> error + nat) \<Rightarrow> 'a \<Rightarrow> nat" where
  "key_of f x = (case f x of Inr k \<Rightarrow> k | Inl e \<Rightarrow> 0)"

section \<open>servers/recipe_api_server/src/services/spoonacular.py\<close>

subsection \<open>\<^verbatim>\<open>_extract_ingredients\<close>\<close>

definition extract_ingredient :: "json \<Rightarrow> error + json" where
  "extract_ingredient ingredient =
     bind_e (py_get ingredient ''name'' JNull) (\<lambda>n.
     bind_e (py_get ingredient ''amount'' JNull) (\<lambda>a.
     bind_e (py_get ingredient ''unit'' JNull) (\<lambda>u.
     bind_e (py_get ingredient ''original'' JNull) (\<lambda>orig.
     Inr (JDict [(''name'', n), (''amount'', a), (''unit'', u), (''original_text'', orig)])))))"

definition extract_ingredients :: "json \<Rightarrow> error + json" where
  "extract_ingredients raw_ingredients =
     bind_e (py_iter raw_ingredients) (\<lambda>its.
     bind_e (map_e extract_ingredient its) (\<lambda>ingredients. Inr (JList ingredients)))"

subsection \<open>\<^verbatim>\<open>_extract_nutrition\<close>\<close>

text \<open>\<^verbatim>\<open>nutrient.get("name", "").lower()\<close>, the first statement of both nutrient loops.\<close>

definition lower_name :: "json \<Rightarrow> error + string" where
  "lower_name nutrient = bind_e (py_get nutrient ''name'' (JStr '''')) py_lower"

text \<open>The loop over the nutrients, \<open>nutrition_dict\<close> being the dict \<^verbatim>\<open>nutrition\<close> built so far;
  \<^verbatim>\<open>nutrition[name] = v\<close> is \<open>AList.update\<close>.\<close>

fun extract_nutrition_loop :: "json list \<Rightarrow> (string \<times> json) list \<Rightarrow> error + (string \<times> json) list" where
  "extract_nutrition_loop [] nutrition_dict = Inr nutrition_dict"
| "extract_nutrition_loop (nutrient # rest) nutrition_dict =
     bind_e (lower_name nutrient) (\<lambda>name.
       if name \<in> set [''calories'', ''protein'', ''carbohydrates'', ''fat'']
       then bind_e (py_get nutrient ''amount'' (JInt 0)) (\<lambda>a.
              extract_nutrition_loop rest (AList.update name a nutrition_dict))
       else extract_nutrition_loop rest nutrition_dict)"

definition extract_nutrition :: "json \<Rightarrow> error + (string \<times> json) list" where
  "extract_nutrition raw_nutrition =
     (if \<not> truthy raw_nutrition then Inr []
      else bind_e (py_in ''nutrients'' raw_nutrition) (\<lambda>has_nutrients.
        if \<not> has_nutrients then Inr []
        else bind_e (bind_e (py_getitem raw_nutrition ''nutrients'') py_iter) (\<lambda>nutrients.
               extract_nutrition_loop nutrients [])))"

subsection \<open>\<^verbatim>\<open>_extract_nutrition_info\<close>\<close>

text \<open>The \<^verbatim>\<open>if\<close>/\<^verbatim>\<open>elif\<close> chain of the loop body: the first test that holds decides the
  key, and a name that passes none leaves \<open>nutrition_data\<close> as it is.\<close>

definition classify_nutrient :: "string \<Rightarrow> json \<Rightarrow> (string \<times> json) list \<Rightarrow> (string \<times> json) list" where
  "classify_nutrient nutrient_name nutrient_amount nutrition_data =
     (if contains ''calorie'' nutrient_name
        then AList.update ''calories_per_serving'' nutrient_amount nutrition_data
      else if contains ''protein'' nutrient_name
        then AList.update ''protein_grams'' nutrient_amount nutrition_data
      else if contains ''carbohydrate'' nutrient_name
        then AList.update ''carbs_grams'' nutrient_amount nutrition_data
      else if contains ''fat'' nutrient_name \<and> \<not> contains ''saturated'' nutrient_name
        then AList.update ''fat_grams'' nutrient_amount nutrition_data
      else if contains ''fiber'' nutrient_name
        then AList.update ''fiber_grams'' nutrient_amount nutrition_data
      else if contains ''sugar'' nutrient_name
        then AList.update ''sugar_grams'' nutrient_amount nutrition_data
      else nutrition_data)"

fun extract_nutrition_info_loop ::
  "json list \<Rightarrow> (string \<times> json) list \<Rightarrow> error + (string \<times> json) list" where
  "extract_nutrition_info_loop [] nutrition_data = Inr nutrition_data"
| "extract_nutrition_info_loop (nutrient # rest) nutrition_data =
     bind_e (lower_name nutrient) (\<lambda>name.
     bind_e (py_get nutrient ''amount'' (JInt 0)) (\<lambda>amount.
       extract_nutrition_info_loop rest (classify_nutrient name amount nutrition_data)))"

definition extract_nutrition_info :: "json \<Rightarrow> error + NutritionInfo option" where
  "extract_nutrition_info raw_nutrition =
     (if \<not> truthy raw_nutrition then Inr None
      else bind_e (py_in ''nutrients'' raw_nutrition) (\<lambda>has_nutrients.
        if \<not> has_nutrients then Inr None
        else bind_e (bind_e (py_getitem raw_nutrition ''nutrients'') py_iter) (\<lambda>nutrients.
             bind_e (extract_nutrition_info_loop nutrients []) (\<lambda>nutrition_data.
               if nutrition_data \<noteq> []
               then bind_e (NutritionInfo_kwargs (JDict nutrition_data)) (\<lambda>n. Inr (Some n))
               else Inr None))))"

subsection \<open>\<^verbatim>\<open>_format_recipes\<close>: the summary record of one search result\<close>

fun format_recipe :: "nat \<Rightarrow> json \<Rightarrow> error + json" where
  "format_recipe max_str_digits (JDict recipe) =
     bind_e (py_str max_str_digits (dict_get recipe ''id'' JNull)) (\<lambda>i.
     bind_e (extract_ingredients (dict_get recipe ''extendedIngredients'' (JList []))) (\<lambda>ings.
     bind_e (extract_nutrition (dict_get recipe ''nutrition'' (JDict []))) (\<lambda>nutr.
     Inr (JDict
       [(''id'', JStr i),
        (''title'', dict_get recipe ''title'' JNull),
        (''description'', dict_get recipe ''summary'' (JStr '''')),
        (''image_url'', dict_get recipe ''image'' JNull),
        (''prep_time_minutes'', dict_get recipe ''preparationMinutes'' (JInt 0)),
        (''cook_time_minutes'', dict_get recipe ''cookingMinutes'' (JInt 0)),
        (''total_time_minutes'', dict_get recipe ''readyInMinutes'' (JInt 0)),
        (''servings'', dict_get recipe ''servings'' (JInt 1)),
        (''source_url'', dict_get recipe ''sourceUrl'' JNull),
        (''cuisine_type'', dict_get recipe ''cuisines'' (JList [])),
        (''dietary_tags'', dict_get recipe ''diets'' (JList [])),
        (''ingredients'', ings),
        (''nutrition'', JDict nutr),
        (''source'', JStr ''spoonacular'')]))))"
| "format_recipe max_str_digits _ = Inl AttributeError"

definition format_recipes :: "nat \<Rightarrow> json list \<Rightarrow> error + json list" where
  "format_recipes max_str_digits raw_recipes = map_e (format_recipe max_str_digits) raw_recipes"

subsection \<open>\<^verbatim>\<open>_format_single_recipe\<close>\<close>

definition format_ingredient :: "json \<Rightarrow> error + Ingredient" where
  "format_ingredient ing =
     bind_e (bind_e (py_get ing ''name'' (JStr '''')) as_str) (\<lambda>n.
     bind_e (bind_e (py_get ing ''amount'' (JInt 0)) as_float) (\<lambda>a.
     bind_e (bind_e (py_get ing ''unit'' (JStr '''')) as_str) (\<lambda>u.
     bind_e (bind_e (py_get ing ''original'' JNull) as_opt_str) (\<lambda>nt.
     Inr \<lparr>name = n, amount = a, unit = u, notes' = nt\<rparr>))))"

text \<open>What one element of \<^verbatim>\<open>recipe_data["instructions"]\<close> appends: the steps of a dict with
  a true \<^verbatim>\<open>steps\<close>, a string itself, nothing otherwise.\<close>

fun format_instruction :: "json \<Rightarrow> error + string list" where
  "format_instruction (JDict instruction) =
     (if truthy (dict_get instruction ''steps'' JNull)
      then bind_e (bind_e (py_getitem (JDict instruction) ''steps'') py_iter)
             (map_e (\<lambda>step. bind_e (py_get step ''step'' (JStr '''')) as_str))
      else Inr [])"
| "format_instruction (JStr s) = Inr [s]"
| "format_instruction _ = Inr []"

definition format_single_recipe ::
  "nat \<Rightarrow> 'dt \<Rightarrow> 'dt \<Rightarrow> (string \<times> json) list \<Rightarrow> error + 'dt recipe" where
  "format_single_recipe max_str_digits now_created now_updated recipe_data =
     bind_e (bind_e (py_iter (dict_get recipe_data ''extendedIngredients'' (JList [])))
               (map_e format_ingredient)) (\<lambda>ings.
     bind_e (if truthy (dict_get recipe_data ''nutrition'' JNull)
             then bind_e (py_getitem (JDict recipe_data) ''nutrition'') extract_nutrition_info
             else Inr None) (\<lambda>nutr.
     bind_e (if truthy (dict_get recipe_data ''instructions'' JNull)
             then bind_e (bind_e (py_getitem (JDict recipe_data) ''instructions'') py_iter)
                    (\<lambda>blocks. bind_e (map_e format_instruction blocks)
                    (\<lambda>steps. Inr (concat steps)))
             else Inr []) (\<lambda>ins.
     bind_e (py_str max_str_digits (dict_get recipe_data ''id'' JNull)) (\<lambda>i.
     bind_e (as_str (dict_get recipe_data ''title'' (JStr ''''))) (\<lambda>t.
     bind_e (as_str (dict_get recipe_data ''summary'' (JStr ''''))) (\<lambda>d.
     bind_e (bind_e (py_index0 (dict_get recipe_data ''cuisines'' (JList [JNull])))
               as_opt_str) (\<lambda>ct.
     bind_e (as_str_list (dict_get recipe_data ''diets'' (JList []))) (\<lambda>tags.
     bind_e (as_int (dict_get recipe_data ''preparationMinutes'' (JInt 0))) (\<lambda>prep.
     bind_e (as_int (dict_get recipe_data ''cookingMinutes'' (JInt 0))) (\<lambda>cook.
     bind_e (as_int (dict_get recipe_data ''readyInMinutes'' (JInt 0))) (\<lambda>total.
     bind_e (as_int (dict_get recipe_data ''servings'' (JInt 1))) (\<lambda>sv.
     bind_e (as_str_list (dict_get recipe_data ''equipment'' (JList []))) (\<lambda>eq.
     bind_e (as_opt_str (dict_get recipe_data ''image'' JNull)) (\<lambda>img.
     bind_e (as_opt_str (dict_get recipe_data ''sourceUrl'' JNull)) (\<lambda>src_url.
     Inr \<lparr>id' = i, title = t, description = d, cuisine_type = ct, dietary_tags = tags,
          prep_time_minutes = prep, cook_time_minutes = cook, total_time_minutes = total,
          servings = sv, difficulty_level = ''intermediate'', ingredients = ings,
          instructions = ins, nutrition = nutr, equipment_required = eq, image_url = img,
          source_url = src_url, source = ''spoonacular'',
          created_at = now_created, updated_at = now_updated\<rparr>)))))))))))))))"

subsection \<open>Notions used to state the properties of the two nutrient loops\<close>

text \<open>The nutrients a payload holds: what the loops visit when the payload is a dict with
  a \<^verbatim>\<open>nutrients\<close> entry, and none otherwise.\<close>

definition nutrients_of :: "json \<Rightarrow> json list" where
  "nutrients_of raw_nutrition =
     (case raw_nutrition of
        JDict kvs \<Rightarrow>
          (case map_of kvs ''nutrients'' of
             Some v \<Rightarrow> (case py_iter v of Inr ns \<Rightarrow> ns | Inl e \<Rightarrow> [])
           | None \<Rightarrow> [])
      | _ \<Rightarrow> [])"

definition summary_names :: "string list" where
  "summary_names = [''calories'', ''protein'', ''carbohydrates'', ''fat'']"

text \<open>A lower-cased name that some branch of the detail path's chain takes, and one that
  the \<^verbatim>\<open>fat_grams\<close> branch takes: it reaches that branch and passes its test.\<close>

definition classified :: "string \<Rightarrow> bool" where
  "classified nm =
     (contains ''calorie'' nm \<or> contains ''protein'' nm \<or> contains ''carbohydrate'' nm
      \<or> (contains ''fat'' nm \<and> \<not> contains ''saturated'' nm)
      \<or> contains ''fiber'' nm \<or> contains ''sugar'' nm)"

definition sets_fat :: "string \<Rightarrow> bool" where
  "sets_fat nm =
     (contains ''fat'' nm \<and> \<not> contains ''saturated'' nm
      \<and> \<not> contains ''calorie'' nm \<and> \<not> contains ''protein'' nm
      \<and> \<not> contains ''carbohydrate'' nm)"

text \<open>The amounts of the nutrients whose name takes the \<^verbatim>\<open>fat_grams\<close> branch, in the order
  of the list.\<close>

definition fat_amount :: "json \<Rightarrow> json list" where
  "fat_amount nutrient =
     (case lower_name nutrient of
        Inr nm \<Rightarrow>
          (if sets_fat nm
           then (case py_get nutrient ''amount'' (JInt 0) of Inr a \<Rightarrow> [a] | Inl e \<Rightarrow> [])
           else [])
      | Inl e \<Rightarrow> [])"

definition fat_amounts :: "json list \<Rightarrow> json list" where
  "fat_amounts nutrients = concat (map fat_amount nutrients)"

text \<open>The payload of \<^verbatim>\<open>test_extract_nutrition\<close>, and two payloads of the detail path.\<close>

definition mk_nutrient :: "string \<Rightarrow> int \<Rightarrow> json" where
  "mk_nutrient n a = JDict [(''name'', JStr n), (''amount'', JInt a)]"

definition test_raw_nutrition :: json where
  "test_raw_nutrition =
     JDict [(''nutrients'',
       JList [mk_nutrient ''Calories'' 250, mk_nutrient ''Protein'' 15,
              mk_nutrient ''Carbohydrates'' 30, mk_nutrient ''Fat'' 10, mk_nutrient ''Sodium'' 500])]"

definition fat_raw_nutrition :: json where
  "fat_raw_nutrition =
     JDict [(''nutrients'', JList [mk_nutrient ''Total Fat'' 12, mk_nutrient ''Saturated Fat'' 4])]"

definition calories_from_fat_raw_nutrition :: json where
  "calories_from_fat_raw_nutrition =
     JDict [(''nutrients'', JList [mk_nutrient ''Calories from Fat'' 90])]"

definition saturated_fat_raw_nutrition :: json where
  "saturated_fat_raw_nutrition =
     JDict [(''nutrients'', JList [mk_nutrient ''Saturated Fat'' 4])]"

text \<open>A search result carrying the payload of \<^verbatim>\<open>test_extract_nutrition\<close>, and a detail
  record whose list of cuisines is empty.\<close>

definition test_search_item :: json where
  "test_search_item =
     JDict [(''id'', JInt 123), (''title'', JStr ''Test Recipe''),
            (''preparationMinutes'', JInt 15), (''cookingMinutes'', JInt 30),
            (''nutrition'', test_raw_nutrition)]"

definition no_cuisine_detail :: "(string \<times> json) list" where
  "no_cuisine_detail = [(''id'', JInt 1), (''title'', JStr ''T''), (''cuisines'', JList [])]"

text \<open>
  A clock to try the serialisation on: a time is its text at the precision of the
  serialisation and a remainder below that precision, which the text drops.
\<close>

definition text_isoformat :: "string \<times> nat \<Rightarrow> string" where
  "text_isoformat t = fst t"

definition text_fromisoformat :: "string \<Rightarrow> error + string \<times> nat" where
  "text_fromisoformat s = Inr (s, 0)"

section \<open>\<^verbatim>\<open>Recipe.scale_recipe\<close> on a store of objects\<close>

text \<open>
  Lists, \<^verbatim>\<open>Ingredient\<close>, \<^verbatim>\<open>NutritionInfo\<close> and \<^verbatim>\<open>Recipe\<close> instances are mutable objects, and
  a field of a recipe holds a reference to one. The store maps an address to the object
  there; \<open>next_addr\<close> is the first address never used, where a new object goes. Strings
  and numbers are immutable and stay values.
\<close>

datatype 'dt obj =
    StrList "string list"
  | IngList "nat list"
  | IngredientObj Ingredient
  | NutritionObj NutritionInfo
  | RecipeObj "'dt recipe_obj"

record 'dt store =
  objs :: "nat \<Rightarrow> 'dt obj option"
  next_addr :: nat

definition alloc :: "'dt obj \<Rightarrow> 'dt store \<Rightarrow> nat \<times> 'dt store" where
  "alloc ob s =
     (next_addr s, s\<lparr>objs := (objs s)(next_addr s \<mapsto> ob), next_addr := Suc (next_addr s)\<rparr>)"

text \<open>\<^verbatim>\<open>xs.copy()\<close> on a list of strings: a new list object with the same items. A
  reference that is not to such a list is outside the model, here and below.\<close>

definition copy_list :: "nat \<Rightarrow> 'dt store \<Rightarrow> error + nat \<times> 'dt store" where
  "copy_list a s =
     (case objs s a of
        Some (StrList xs) \<Rightarrow> Inr (alloc (StrList xs) s)
      | _ \<Rightarrow> Inl OutsideModel)"

text \<open>The loop: for each ingredient a new \<^verbatim>\<open>Ingredient\<close> object, appended to the list
  object at \<open>scaled_ingredients\<close>.\<close>

fun scale_ingredients_st :: "real \<Rightarrow> nat \<Rightarrow> nat list \<Rightarrow> 'dt store \<Rightarrow> error + 'dt store" where
  "scale_ingredients_st scale_factor scaled_ingredients [] s = Inr s"
| "scale_ingredients_st scale_factor scaled_ingredients (a # rest) s =
     (case objs s a of
        Some (IngredientObj ingredient) \<Rightarrow>
          (case alloc (IngredientObj (scale_ingredient scale_factor ingredient)) s of
             (a', s1) \<Rightarrow>
               (case objs s1 scaled_ingredients of
                  Some (IngList l) \<Rightarrow>
                    scale_ingredients_st scale_factor scaled_ingredients rest
                      (s1\<lparr>objs := (objs s1)(scaled_ingredients \<mapsto> IngList (l @ [a']))\<rparr>)
                | _ \<Rightarrow> Inl OutsideModel))
      | _ \<Rightarrow> Inl OutsideModel)"

text \<open>
  The method on the recipe object at the address \<open>self\<close>: the result, an exception or the
  address of the new recipe, and the store after the call. The arguments of
  \<^verbatim>\<open>Recipe(...)\<close> are evaluated in the order they are written, so after the loop come
  the two f-strings and then the three copies, in that order;
  \<^verbatim>\<open>nutrition=self.nutrition\<close> passes the reference.
\<close>

definition scale_recipe_st ::
  "nat \<Rightarrow> 'dt \<Rightarrow> 'dt \<Rightarrow> nat \<Rightarrow> int \<Rightarrow> 'dt store \<Rightarrow> (error + nat) \<times> 'dt store" where
  "scale_recipe_st max_str_digits now_created now_updated self new_servings s =
     (case objs s self of
        Some (RecipeObj r) \<Rightarrow>
          if servings r \<le> 0
          then (Inl (ValueError ''Cannot scale recipe with zero or negative servings''), s)
          else
            (case py_true_div new_servings (servings r) of
               Inl e \<Rightarrow> (Inl e, s)
             | Inr scale_factor \<Rightarrow>
             (case alloc (IngList []) s of
               (scaled_ingredients, s1) \<Rightarrow>
             (case objs s1 (ingredients r) of
                Some (IngList ings) \<Rightarrow>
             (case scale_ingredients_st scale_factor scaled_ingredients ings s1 of
                Inl e \<Rightarrow> (Inl e, s1)
              | Inr s2 \<Rightarrow>
             (case py_str_int max_str_digits new_servings of
                Inl e \<Rightarrow> (Inl e, s2)
              | Inr id_servings \<Rightarrow>
             (case py_str_int max_str_digits new_servings of
                Inl e \<Rightarrow> (Inl e, s2)
              | Inr title_servings \<Rightarrow>
             (case copy_list (dietary_tags r) s2 of
                Inl e \<Rightarrow> (Inl e, s2)
              | Inr (tags, s3) \<Rightarrow>
             (case copy_list (instructions r) s3 of
                Inl e \<Rightarrow> (Inl e, s3)
              | Inr (ins, s4) \<Rightarrow>
             (case copy_list (equipment_required r) s4 of
                Inl e \<Rightarrow> (Inl e, s4)
              | Inr (eq, s5) \<Rightarrow>
             (case alloc (RecipeObj
                \<lparr>id' = id' r @ ''_scaled_'' @ id_servings,
                 title = title r @ '' (serves '' @ title_servings @ '')'',
                 description = description r,
                 cuisine_type = cuisine_type r,
                 dietary_tags = tags,
                 prep_time_minutes = prep_time_minutes r,
                 cook_time_minutes = cook_time_minutes r,
                 total_time_minutes = total_time_minutes r,
                 servings = new_servings,
                 difficulty_level = difficulty_level r,
                 ingredients = scaled_ingredients,
                 instructions = ins,
                 nutrition = nutrition r,
                 equipment_required = eq,
                 image_url = image_url r,
                 source_url = source_url r,
                 source = source r,
                 created_at = now_created,
                 updated_at = now_updated\<rparr>) s5 of
                (new, s6) \<Rightarrow> (Inr new, s6))))))))
              | _ \<Rightarrow> (Inl OutsideModel, s1))))
      | _ \<Rightarrow> (Inl OutsideModel, s))"

subsection \<open>Reading a recipe off the store\<close>

definition str_list_at :: "'dt store \<Rightarrow> nat \<Rightarrow> string list option" where
  "str_list_at s a = (case objs s a of Some (StrList xs) \<Rightarrow> Some xs | _ \<Rightarrow> None)"

definition ingredient_at :: "'dt store \<Rightarrow> nat \<Rightarrow> Ingredient option" where
  "ingredient_at s a = (case objs s a of Some (IngredientObj i) \<Rightarrow> Some i | _ \<Rightarrow> None)"

fun all_some :: "'a option list \<Rightarrow> 'a list option" where
  "all_some [] = Some []"
| "all_some (x # xs) =
     (case x of None \<Rightarrow> None
      | Some y \<Rightarrow> (case all_some xs of None \<Rightarrow> None | Some ys \<Rightarrow> Some (y # ys)))"

definition ingredients_at :: "'dt store \<Rightarrow> nat \<Rightarrow> Ingredient list option" where
  "ingredients_at s a =
     (case objs s a of
        Some (IngList as) \<Rightarrow> all_some (map (ingredient_at s) as)
      | _ \<Rightarrow> None)"

definition nutrition_at :: "'dt store \<Rightarrow> nat option \<Rightarrow> NutritionInfo option option" where
  "nutrition_at s a =
     (case a of
        None \<Rightarrow> Some None
      | Some b \<Rightarrow> (case objs s b of Some (NutritionObj n) \<Rightarrow> Some (Some n) | _ \<Rightarrow> None))"

definition recipe_obj_at :: "'dt store \<Rightarrow> nat \<Rightarrow> 'dt recipe_obj option" where
  "recipe_obj_at s a = (case objs s a of Some (RecipeObj r) \<Rightarrow> Some r | _ \<Rightarrow> None)"

text \<open>The contents of the recipe at an address: each reference replaced by what the
  object it points to holds; \<open>None\<close> when a reference does not point to an object of
  its field's type.\<close>

definition read_recipe :: "'dt store \<Rightarrow> nat \<Rightarrow> 'dt recipe option" where
  "read_recipe s a =
     (case recipe_obj_at s a of
        None \<Rightarrow> None
      | Some r \<Rightarrow>
     (case str_list_at s (dietary_tags r) of None \<Rightarrow> None | Some tags \<Rightarrow>
     (case ingredients_at s (ingredients r) of None \<Rightarrow> None | Some ings \<Rightarrow>
     (case str_list_at s (instructions r) of None \<Rightarrow> None | Some ins \<Rightarrow>
     (case nutrition_at s (nutrition r) of None \<Rightarrow> None | Some nutr \<Rightarrow>
     (case str_list_at s (equipment_required r) of None \<Rightarrow> None | Some eq \<Rightarrow>
       Some \<lparr>id' = id' r, title = title r, description = description r,
             cuisine_type = cuisine_type r, dietary_tags = tags,
             prep_time_minutes = prep_time_minutes r,
             cook_time_minutes = cook_time_minutes r,
             total_time_minutes = total_time_minutes r,
             servings = servings r, difficulty_level = difficulty_level r,
             ingredients = ings, instructions = ins, nutrition = nutr,
             equipment_required = eq, image_url = image_url r,
             source_url = source_url r, source = source r,
             created_at = created_at r, updated_at = updated_at r\<rparr>))))))"

text \<open>\<^verbatim>\<open>x.nutrition.fat_grams = v\<close> on the recipe at the address \<open>a\<close>: a write to the
  \<^verbatim>\<open>NutritionInfo\<close> object the recipe refers to.\<close>

definition set_nutrition_fat_grams :: "nat \<Rightarrow> real option \<Rightarrow> 'dt store \<Rightarrow> 'dt store" where
  "set_nutrition_fat_grams a v s =
     (case recipe_obj_at s a of
        Some r \<Rightarrow>
          (case nutrition r of
             Some b \<Rightarrow>
               (case objs s b of
                  Some (NutritionObj n) \<Rightarrow>
                    s\<lparr>objs := (objs s)(b \<mapsto> NutritionObj (n\<lparr>fat_grams := v\<rparr>))\<rparr>
                | _ \<Rightarrow> s)
           | None \<Rightarrow> s)
      | None \<Rightarrow> s)"

text \<open>
  A store with one recipe, at address 6: its list of dietary tags at 0, an ingredient at
  1, the list of its ingredients at 2, its instructions at 3, its equipment at 4, its
  \<^verbatim>\<open>NutritionInfo\<close> at 5.
\<close>

definition one_recipe_store :: "int \<Rightarrow> nat store" where
  "one_recipe_store sv =
     \<lparr>objs = [0 \<mapsto> StrList [''vegan''],
              1 \<mapsto> IngredientObj \<lparr>name = ''flour'', amount = 2, unit = ''cups'', notes' = None\<rparr>,
              2 \<mapsto> IngList [1],
              3 \<mapsto> StrList [''Mix''],
              4 \<mapsto> StrList [''bowl''],
              5 \<mapsto> NutritionObj \<lparr>calories_per_serving = Some 300, protein_grams = None,
                     carbs_grams = None, fat_grams = None, fiber_grams = None,
                     sugar_grams = None\<rparr>,
              6 \<mapsto> RecipeObj
                \<lparr>id' = ''x'', title = ''T'', description = '''', cuisine_type = None,
                 dietary_tags = 0, prep_time_minutes = 0, cook_time_minutes = 0,
                 total_time_minutes = 0, servings = sv,
                 difficulty_level = ''intermediate'', ingredients = 2, instructions = 3,
                 nutrition = Some 5, equipment_required = 4, image_url = None,
                 source_url = None, source = ''unknown'', created_at = 0,
                 updated_at = 0\<rparr>],
      next_addr = 7\<rparr>"

text \<open>A store in which no address from \<open>next_addr\<close> on holds an object: what allocation
  keeps true, and what makes a new object distinct from every old one.\<close>

definition store_ok :: "'dt store \<Rightarrow> bool" where
  "store_ok s = (\<forall>a. next_addr s \<le> a \<longrightarrow> objs s a = None)"



section \<open>Scaling\<close>








lemma str_int_minus_2: "str_int (- 2) = ''-2''"
  by (simp add: str_int_def str_nat.simps digit_def)







section \<open>Relevance ranking\<close>

lemma map_e_Inr_iff:
  "map_e f xs = Inr ys \<longleftrightarrow> list_all2 (\<lambda>x y. f x = Inr y) xs ys"
proof (induction xs arbitrary: ys)
  case Nil
  then show ?case by auto
next
  case (Cons x xs)
  show ?case
  proof (cases "f x")
    case (Inl e)
    then show ?thesis by (auto simp: list_all2_Cons1)
  next
    case (Inr y)
    note fx = this
    show ?thesis
    proof (cases "map_e f xs")
      case (Inl e)
      with Cons.IH fx show ?thesis by (auto simp: list_all2_Cons1)
    next
      case (Inr zs)
      with Cons.IH fx show ?thesis by (auto simp: list_all2_Cons1)
    qed
  qed
qed

lemma map_e_total:
  assumes "\<And>x. x \<in> set xs \<Longrightarrow> f x = Inr (g x)"
  shows "map_e f xs = Inr (map g xs)"
  using assms by (induction xs) auto

lemma map_e_keys:
  "map_e f xs = Inr ks \<Longrightarrow> ks = map (key_of f) xs"
  unfolding map_e_Inr_iff
  by (induction xs ks rule: list_all2_induct) (auto simp: key_of_def)

lemma map_e_all_return:
  "map_e f xs = Inr ks \<Longrightarrow> x \<in> set xs \<Longrightarrow> f x = Inr (key_of f x)"
  unfolding map_e_Inr_iff
  by (induction xs ks rule: list_all2_induct) (auto simp: key_of_def)

lemma insort_key_decorate:
  "insort_key fst (k x, x) (map (\<lambda>x. (k x, x)) ys) = map (\<lambda>x. (k x, x)) (insort_key k x ys)"
  by (induction ys) auto

lemma sort_key_decorate:
  "sort_key fst (map (\<lambda>x. (k x, x)) xs) = map (\<lambda>x. (k x, x)) (sort_key k xs)"
  by (induction xs) (auto simp: insort_key_decorate)

lemma sorted_reverse_Inr:
  assumes "sorted_reverse f xs = Inr ys"
  shows "ys = rev (sort_key (key_of f) (rev xs))"
proof -
  from assms obtain ks where ks: "map_e f xs = Inr ks"
    and ys: "ys = map snd (rev (sort_key fst (rev (zip ks xs))))"
    by (auto simp: sorted_reverse_def elim!: bind_e.elims)
  from map_e_keys [OF ks] have "zip ks xs = map (\<lambda>x. (key_of f x, x)) xs"
    by (simp add: zip_map1 zip_same_conv_map)
  then have "rev (zip ks xs) = map (\<lambda>x. (key_of f x, x)) (rev xs)"
    by (simp add: rev_map)
  then have "sort_key fst (rev (zip ks xs))
      = map (\<lambda>x. (key_of f x, x)) (sort_key (key_of f) (rev xs))"
    by (simp only: sort_key_decorate)
  then show ?thesis
    by (simp add: ys rev_map comp_def)
qed

lemma sorted_reverse_returns:
  "sorted_reverse f xs = Inr ys \<Longrightarrow> x \<in> set xs \<Longrightarrow> f x = Inr (key_of f x)"
  by (auto simp: sorted_reverse_def elim!: bind_e.elims dest: map_e_all_return)

lemma sorted_reverse_total:
  assumes "\<And>x. x \<in> set xs \<Longrightarrow> f x = Inr (g x)"
  shows "\<exists>ys. sorted_reverse f xs = Inr ys"
  by (simp add: sorted_reverse_def map_e_total [OF assms])

lemma sorted_reverse_stable:
  assumes "sorted_reverse f xs = Inr ys"
  shows "filter (\<lambda>x. key_of f x = k) ys = filter (\<lambda>x. key_of f x = k) xs"
  by (simp add: sorted_reverse_Inr [OF assms] rev_filter [symmetric] sort_key_stable)

lemma rev_sorted_descending:
  assumes "sorted (map k zs)" and "i < j" and "j < length zs"
  shows "k (rev zs ! j) \<le> k (rev zs ! i)"
proof -
  from assms(2,3) have "length zs - Suc j \<le> length zs - Suc i" "length zs - Suc i < length zs"
    by auto
  with assms(1) have "map k zs ! (length zs - Suc j) \<le> map k zs ! (length zs - Suc i)"
    by (intro sorted_nth_mono) auto
  with assms(2,3) show ?thesis
    by (simp add: rev_nth)
qed

lemma sorted_reverse_descending:
  assumes "sorted_reverse f xs = Inr ys" and "i < j" and "j < length ys"
  shows "key_of f (ys ! j) \<le> key_of f (ys ! i)"
  using assms(2,3) unfolding sorted_reverse_Inr [OF assms(1)]
  by (intro rev_sorted_descending) auto

lemma split_acc_append_space:
  "split_acc w (xs @ CHR '' '' # ys) = split_acc w xs @ split_acc [] ys"
  by (induction xs arbitrary: w) (auto simp: isspace_def)

lemma tokens_repeated: "tokens (query @ '' '' @ query) = tokens query"
proof -
  have "lower (query @ '' '' @ query) = lower query @ CHR '' '' # lower query"
    by (simp add: lower_def lower_char_def)
  then show ?thesis
    by (simp add: tokens_def split_def split_acc_append_space)
qed

lemma relevance_score_scorable:
  assumes "scorable r"
  shows "relevance_score (tokens query) r
    = Inr (score_spec query (title_of r) (description_of r))"
proof (cases r)
  case (JDict kvs)
  from assms obtain t d where t: "dict_get kvs ''title'' (JStr '''') = JStr t"
      and d: "dict_get kvs ''description'' (JStr '''') = JStr d"
    by (auto simp: scorable_def JDict split: json.splits)
  have "tokens t = set (split (lower t))" "tokens d = set (split (lower d))"
    by (simp_all add: tokens_def)
  then show ?thesis
    by (simp add: JDict relevance_score_def t d score_spec_def title_of_def description_of_def)
qed (use assms in \<open>auto simp: scorable_def\<close>)

lemmas ranking_examples =
  beef_stroganoff_def chicken_parmesan_def parmesan_chicken_salad_def

lemmas ranking_eval =
  sort_by_relevance_def sorted_reverse_def relevance_score_def lower_def lower_char_def
  split_def isspace_def dict_get_def Let_def

lemma relevance_score_no_tokens:
  "relevance_score {} r = Inr k \<Longrightarrow> k = 0"
  by (cases "bind_e (py_get r ''title'' (JStr [])) py_lower";
      cases "bind_e (py_get r ''description'' (JStr [])) py_lower")
     (simp_all add: relevance_score_def)

text \<open>
  C5. When every score is computed, so that \<open>sort_by_relevance\<close> returns, the results
  with any one score \<open>k\<close> stand in the output in the order they have in the input: the
  sort is stable. For a query without tokens, the empty query among them, every result
  scores 0 and the output is the input.
\<close>

theorem sort_by_relevance_stable:
  assumes "sort_by_relevance recipes query = Inr out"
  shows "(\<forall>k. filter (\<lambda>r. relevance_score (set (split (lower query))) r = Inr k) out
            = filter (\<lambda>r. relevance_score (set (split (lower query))) r = Inr k) recipes)
    \<and> (split (lower query) = [] \<longrightarrow>
          list_all (\<lambda>r. relevance_score (set (split (lower query))) r = Inr 0) recipes
          \<and> out = recipes)"
proof -
  let ?f = "relevance_score (set (split (lower query)))"
  from assms have sr: "sorted_reverse ?f recipes = Inr out"
    by (simp add: sort_by_relevance_def)
  have out: "out = rev (sort_key (key_of ?f) (rev recipes))"
    by (rule sorted_reverse_Inr [OF sr])
  have ret: "?f r = Inr (key_of ?f r)" if "r \<in> set recipes" for r
    using sr that by (rule sorted_reverse_returns)
  have set_out: "set out = set recipes"
    by (simp add: out)
  have eqv: "(?f r = Inr k) = (key_of ?f r = k)" if "r \<in> set recipes" for r k
  proof -
    from ret [OF that] obtain v where "?f r = Inr v" ..
    then show ?thesis by (simp add: key_of_def)
  qed
  have stable: "filter (\<lambda>r. ?f r = Inr k) out = filter (\<lambda>r. ?f r = Inr k) recipes" for k
  proof -
    have "filter (\<lambda>r. ?f r = Inr k) out = filter (\<lambda>r. key_of ?f r = k) out"
      by (rule filter_cong) (simp_all add: set_out eqv)
    also have "\<dots> = filter (\<lambda>r. key_of ?f r = k) recipes"
      by (rule sorted_reverse_stable [OF sr])
    also have "\<dots> = filter (\<lambda>r. ?f r = Inr k) recipes"
      by (rule filter_cong) (simp_all add: eqv)
    finally show ?thesis .
  qed
  have empty: "list_all (\<lambda>r. ?f r = Inr 0) recipes \<and> out = recipes"
    if e: "split (lower query) = []"
  proof -
    have zero: "?f r = Inr 0" if "r \<in> set recipes" for r
    proof -
      from ret [OF that] obtain v where v: "?f r = Inr v" ..
      with relevance_score_no_tokens [of r v] show ?thesis by (simp add: e)
    qed
    then have all: "list_all (\<lambda>r. ?f r = Inr 0) recipes"
      by (simp add: list_all_iff)
    from zero have "filter (\<lambda>r. ?f r = Inr 0) recipes = recipes"
      by (simp add: filter_id_conv)
    moreover from zero have "filter (\<lambda>r. ?f r = Inr 0) out = out"
      by (simp add: filter_id_conv set_out)
    ultimately have "out = recipes"
      using stable [of 0] by simp
    with all show ?thesis by simp
  qed
  show ?thesis
  proof (intro conjI allI impI)
    fix k
    show "filter (\<lambda>r. ?f r = Inr k) out = filter (\<lambda>r. ?f r = Inr k) recipes"
      by (rule stable)
  next
    assume "split (lower query) = []"
    then show "list_all (\<lambda>r. ?f r = Inr 0) recipes" "out = recipes"
      using empty by simp_all
  qed
qed

theorem sort_by_relevance_stable_witness:
  "sort_by_relevance [chicken_parmesan, parmesan_chicken_salad, beef_stroganoff] ''beef''
     = Inr [beef_stroganoff, chicken_parmesan, parmesan_chicken_salad]
   \<and> filter (\<lambda>r. relevance_score (set (split (lower ''beef''))) r = Inr 0)
        [beef_stroganoff, chicken_parmesan, parmesan_chicken_salad]
     = [chicken_parmesan, parmesan_chicken_salad]
   \<and> sort_by_relevance [chicken_parmesan, parmesan_chicken_salad, beef_stroganoff] ''''
     = Inr [chicken_parmesan, parmesan_chicken_salad, beef_stroganoff]
   \<and> split (lower '''') = []"
proof -
  have a: "sort_by_relevance [chicken_parmesan, parmesan_chicken_salad, beef_stroganoff] ''beef''
     = Inr [beef_stroganoff, chicken_parmesan, parmesan_chicken_salad]"
    by (simp add: ranking_eval ranking_examples)
  have b: "filter (\<lambda>r. relevance_score (set (split (lower ''beef''))) r = Inr 0)
        [chicken_parmesan, parmesan_chicken_salad, beef_stroganoff]
     = [chicken_parmesan, parmesan_chicken_salad]"
    by (simp add: ranking_eval ranking_examples)
  have c: "sort_by_relevance [chicken_parmesan, parmesan_chicken_salad, beef_stroganoff] ''''
     = Inr [chicken_parmesan, parmesan_chicken_salad, beef_stroganoff]"
    by (simp add: ranking_eval ranking_examples)
  have d: "split (lower '''') = []"
    by (simp add: split_def lower_def)
  have f:
    "filter (\<lambda>r. relevance_score (set (split (lower ''beef''))) r = Inr 0)
        [beef_stroganoff, chicken_parmesan, parmesan_chicken_salad]
     = [chicken_parmesan, parmesan_chicken_salad]"
    by (rule trans [OF sort_by_relevance_stable [OF a, THEN conjunct1, rule_format, of 0] b])
  show ?thesis by (intro conjI a f c d)
qed

text \<open>
  C6. On results whose title and description are strings where present,
  \<open>sort_by_relevance\<close> returns a permutation of the input in descending order of the
  score \<open>2 * |query tokens \<inter> title words| + |query tokens \<inter> description words|\<close>;
  the query tokens are a set, so the query repeated after itself gives the same scores
  and the same output. The witness is the example of the three recipes and the query
  \<^verbatim>\<open>"chicken parmesan"\<close>: Chicken Parmesan, Parmesan Chicken Salad, Beef Stroganoff
  (score 0).
\<close>

theorem sort_by_relevance_descending_score:
  assumes "list_all scorable recipes"
  shows "\<exists>out. sort_by_relevance recipes query = Inr out
      \<and> mset out = mset recipes
      \<and> (\<forall>i j. i < j \<and> j < length out \<longrightarrow>
           score_spec query (title_of (out ! j)) (description_of (out ! j))
             \<le> score_spec query (title_of (out ! i)) (description_of (out ! i)))
      \<and> sort_by_relevance recipes (query @ '' '' @ query) = Inr out"
proof -
  let ?f = "relevance_score (tokens query)"
  let ?g = "\<lambda>r. score_spec query (title_of r) (description_of r)"
  have f: "?f r = Inr (?g r)" if "r \<in> set recipes" for r
    using assms that by (intro relevance_score_scorable) (simp add: list_all_iff)
  have sbr: "sort_by_relevance recipes q = sorted_reverse (relevance_score (tokens q)) recipes" for q
    by (simp add: sort_by_relevance_def tokens_def)
  from sorted_reverse_total [of recipes ?f ?g, OF f]
  obtain out where out: "sorted_reverse ?f recipes = Inr out"
    by blast
  have perm: "mset out = mset recipes"
    by (simp add: sorted_reverse_Inr [OF out])
  then have set_out: "set out = set recipes"
    by (rule mset_eq_setD)
  have key: "key_of ?f r = ?g r" if "r \<in> set out" for r
    using f [of r] that by (simp add: key_of_def set_out)
  have desc: "?g (out ! j) \<le> ?g (out ! i)" if "i < j" "j < length out" for i j
    using sorted_reverse_descending [OF out that] that by (simp add: key)
  have "tokens (query @ CHR '' '' # query) = tokens query"
    using tokens_repeated [of query] by simp
  with out perm desc show ?thesis
    by (auto simp: sbr)
qed

theorem sort_by_relevance_descending_score_witness:
  "list_all scorable [beef_stroganoff, chicken_parmesan, parmesan_chicken_salad]
   \<and> sort_by_relevance [beef_stroganoff, chicken_parmesan, parmesan_chicken_salad]
        ''chicken parmesan''
      = Inr [chicken_parmesan, parmesan_chicken_salad, beef_stroganoff]
   \<and> sort_by_relevance [beef_stroganoff, chicken_parmesan, parmesan_chicken_salad]
        ''chicken parmesan chicken parmesan''
      = Inr [chicken_parmesan, parmesan_chicken_salad, beef_stroganoff]
   \<and> map (\<lambda>r. score_spec ''chicken parmesan'' (title_of r) (description_of r))
        [chicken_parmesan, parmesan_chicken_salad, beef_stroganoff] = [6, 5, 0]"
proof -
  have w: "list_all scorable [beef_stroganoff, chicken_parmesan, parmesan_chicken_salad]"
    by (simp add: scorable_def ranking_examples dict_get_def)
  have e: "sort_by_relevance [beef_stroganoff, chicken_parmesan, parmesan_chicken_salad]
        ''chicken parmesan''
      = Inr [chicken_parmesan, parmesan_chicken_salad, beef_stroganoff]"
    by (simp add: ranking_eval ranking_examples)
  have s: "map (\<lambda>r. score_spec ''chicken parmesan'' (title_of r) (description_of r))
        [chicken_parmesan, parmesan_chicken_salad, beef_stroganoff] = [6, 5, 0]"
    by (simp add: score_spec_def tokens_def title_of_def description_of_def
          ranking_eval ranking_examples)
  from sort_by_relevance_descending_score [OF w, of "''chicken parmesan''"]
  obtain out where
    "sort_by_relevance [beef_stroganoff, chicken_parmesan, parmesan_chicken_salad]
        ''chicken parmesan'' = Inr out"
    "sort_by_relevance [beef_stroganoff, chicken_parmesan, parmesan_chicken_salad]
        (''chicken parmesan'' @ '' '' @ ''chicken parmesan'') = Inr out"
    by blast
  with e have "sort_by_relevance [beef_stroganoff, chicken_parmesan, parmesan_chicken_salad]
        (''chicken parmesan'' @ '' '' @ ''chicken parmesan'')
      = Inr [chicken_parmesan, parmesan_chicken_salad, beef_stroganoff]"
    by (simp only: sum.inject)
  then have r: "sort_by_relevance [beef_stroganoff, chicken_parmesan, parmesan_chicken_salad]
        ''chicken parmesan chicken parmesan''
      = Inr [chicken_parmesan, parmesan_chicken_salad, beef_stroganoff]"
    by (simp only: append.simps)
  show ?thesis by (intro conjI w e r s)
qed

section \<open>Provider normalisation\<close>

lemma bind_e_Inr_iff:
  "bind_e m f = Inr y \<longleftrightarrow> (\<exists>v. m = Inr v \<and> f v = Inr y)"
  by (cases m) auto

lemma extract_nutrition_loop_keys:
  "extract_nutrition_loop ns acc = Inr m \<Longrightarrow>
     fst ` set m = fst ` set acc \<union> {k \<in> set summary_names. \<exists>n \<in> set ns. lower_name n = Inr k}"
proof (induction ns arbitrary: acc)
  case Nil
  then show ?case by simp
next
  case (Cons n ns)
  from Cons.prems obtain nm where nm: "lower_name n = Inr nm"
    by (auto simp: bind_e_Inr_iff)
  show ?case
  proof (cases "nm \<in> set summary_names")
    case True
    with Cons.prems nm obtain a where
      "extract_nutrition_loop ns (AList.update nm a acc) = Inr m"
      by (auto simp: bind_e_Inr_iff summary_names_def)
    from Cons.IH [OF this] True nm show ?thesis
      by (auto simp: dom_update)
  next
    case False
    with Cons.prems nm have "extract_nutrition_loop ns acc = Inr m"
      by (auto simp: bind_e_Inr_iff summary_names_def)
    from Cons.IH [OF this] False nm show ?thesis
      by auto
  qed
qed

lemma extract_nutrition_loop_of:
  assumes "extract_nutrition raw = Inr m"
  shows "extract_nutrition_loop (nutrients_of raw) [] = Inr m"
proof (cases raw)
  case (JDict kvs)
  with assms show ?thesis
    by (cases "map_of kvs ''nutrients''")
       (auto simp: extract_nutrition_def nutrients_of_def bind_e_Inr_iff split: if_splits)
qed (use assms in \<open>auto simp: extract_nutrition_def nutrients_of_def bind_e_Inr_iff split: if_splits\<close>)

lemma classify_nutrient_unclassified:
  "\<not> classified nm \<Longrightarrow> classify_nutrient nm a d = d"
  by (auto simp: classified_def classify_nutrient_def)

lemma classify_nutrient_nonempty:
  "classified nm \<or> d \<noteq> [] \<Longrightarrow> classify_nutrient nm a d \<noteq> []"
  by (auto simp: classified_def classify_nutrient_def)

lemma classify_nutrient_fat:
  "map_of (classify_nutrient nm a d) ''fat_grams''
     = (if sets_fat nm then Some a else map_of d ''fat_grams'')"
  by (simp add: sets_fat_def classify_nutrient_def update_conv)

lemma extract_nutrition_info_loop_fat:
  "extract_nutrition_info_loop ns d = Inr d' \<Longrightarrow>
     map_of d' ''fat_grams''
       = (if fat_amounts ns = [] then map_of d ''fat_grams'' else Some (last (fat_amounts ns)))"
proof (induction ns arbitrary: d)
  case Nil
  then show ?case by (simp add: fat_amounts_def)
next
  case (Cons n ns)
  from Cons.prems obtain nm a where nm: "lower_name n = Inr nm"
      and a: "py_get n ''amount'' (JInt 0) = Inr a"
      and rest: "extract_nutrition_info_loop ns (classify_nutrient nm a d) = Inr d'"
    by (auto simp: bind_e_Inr_iff)
  have fa: "fat_amount n = (if sets_fat nm then [a] else [])"
    by (simp add: fat_amount_def nm a)
  have "fat_amounts (n # ns) = fat_amount n @ fat_amounts ns"
    by (simp add: fat_amounts_def)
  with Cons.IH [OF rest] fa show ?case
    by (simp add: classify_nutrient_fat)
qed

lemma extract_nutrition_info_loop_empty:
  "extract_nutrition_info_loop ns d = Inr d' \<Longrightarrow>
     d' = [] \<longleftrightarrow> d = [] \<and> \<not> (\<exists>n \<in> set ns. \<exists>nm. lower_name n = Inr nm \<and> classified nm)"
proof (induction ns arbitrary: d)
  case Nil
  then show ?case by auto
next
  case (Cons n ns)
  from Cons.prems obtain nm a where nm: "lower_name n = Inr nm"
      and a: "py_get n ''amount'' (JInt 0) = Inr a"
      and rest: "extract_nutrition_info_loop ns (classify_nutrient nm a d) = Inr d'"
    by (auto simp: bind_e_Inr_iff)
  have "classify_nutrient nm a d = [] \<longleftrightarrow> d = [] \<and> \<not> classified nm"
    using classify_nutrient_nonempty [of nm d a] classify_nutrient_unclassified [of nm a d]
    by auto
  with Cons.IH [OF rest] nm show ?case
    by auto
qed

lemma extract_nutrition_info_loop_of:
  assumes "extract_nutrition_info raw = Inr res"
  shows "\<exists>d. extract_nutrition_info_loop (nutrients_of raw) [] = Inr d
    \<and> (if d = [] then res = None
        else \<exists>ni. NutritionInfo_kwargs (JDict d) = Inr ni \<and> res = Some ni)"
proof (cases raw)
  case (JDict kvs)
  with assms show ?thesis
    by (cases "map_of kvs ''nutrients''")
       (auto simp: extract_nutrition_info_def nutrients_of_def bind_e_Inr_iff
             simp del: NutritionInfo_kwargs.simps split: if_splits)
qed (use assms in \<open>auto simp: extract_nutrition_info_def nutrients_of_def bind_e_Inr_iff
       simp del: NutritionInfo_kwargs.simps split: if_splits\<close>)

lemma NutritionInfo_kwargs_fat:
  "NutritionInfo_kwargs (JDict d) = Inr ni \<Longrightarrow>
     as_opt_float (dict_get d ''fat_grams'' JNull) = Inr (fat_grams ni)"
  by (auto simp: bind_e_Inr_iff split: if_splits)

lemma extract_nutrition_info_fat:
  assumes "extract_nutrition_info raw = Inr res"
  shows "(res = None \<longleftrightarrow>
            \<not> (\<exists>n \<in> set (nutrients_of raw). \<exists>nm. lower_name n = Inr nm \<and> classified nm))
    \<and> (fat_amounts (nutrients_of raw) = [] \<longrightarrow> (\<forall>ni. res = Some ni \<longrightarrow> fat_grams ni = None))
    \<and> (fat_amounts (nutrients_of raw) \<noteq> [] \<longrightarrow>
          (\<exists>ni. res = Some ni
             \<and> as_opt_float (last (fat_amounts (nutrients_of raw))) = Inr (fat_grams ni)))"
proof -
  from extract_nutrition_info_loop_of [OF assms] obtain d where
    loop: "extract_nutrition_info_loop (nutrients_of raw) [] = Inr d"
    and res: "if d = [] then res = None
        else \<exists>ni. NutritionInfo_kwargs (JDict d) = Inr ni \<and> res = Some ni"
    by blast
  note fat = extract_nutrition_info_loop_fat [OF loop]
  note empty = extract_nutrition_info_loop_empty [OF loop]
  have 1: "res = None \<longleftrightarrow>
            \<not> (\<exists>n \<in> set (nutrients_of raw). \<exists>nm. lower_name n = Inr nm \<and> classified nm)"
  proof (cases "d = []")
    case True
    with res empty show ?thesis by simp
  next
    case False
    with res obtain ni where "res = Some ni" by auto
    with False empty show ?thesis by simp
  qed
  have 2: "fat_grams ni = None" if "fat_amounts (nutrients_of raw) = []" "res = Some ni" for ni
  proof -
    from that res have k: "NutritionInfo_kwargs (JDict d) = Inr ni"
      by (cases "d = []") (auto simp del: NutritionInfo_kwargs.simps)
    from fat that have "map_of d ''fat_grams'' = None" by simp
    then have "dict_get d ''fat_grams'' JNull = JNull" by (simp add: dict_get_def)
    with NutritionInfo_kwargs_fat [OF k] show ?thesis by simp
  qed
  have 3: "\<exists>ni. res = Some ni
             \<and> as_opt_float (last (fat_amounts (nutrients_of raw))) = Inr (fat_grams ni)"
    if ne: "fat_amounts (nutrients_of raw) \<noteq> []"
  proof -
    from fat ne have m: "map_of d ''fat_grams'' = Some (last (fat_amounts (nutrients_of raw)))"
      by simp
    then have "d \<noteq> []" by auto
    with res obtain ni where k: "NutritionInfo_kwargs (JDict d) = Inr ni" and r: "res = Some ni"
      by (auto simp del: NutritionInfo_kwargs.simps)
    from m have "dict_get d ''fat_grams'' JNull = last (fat_amounts (nutrients_of raw))"
      by (simp add: dict_get_def)
    with NutritionInfo_kwargs_fat [OF k] r show ?thesis by simp
  qed
  show ?thesis
  proof (intro conjI impI allI)
    show "res = None \<longleftrightarrow>
            \<not> (\<exists>n \<in> set (nutrients_of raw). \<exists>nm. lower_name n = Inr nm \<and> classified nm)"
      by (rule 1)
  next
    fix ni
    assume "fat_amounts (nutrients_of raw) = []" "res = Some ni"
    then show "fat_grams ni = None" by (rule 2)
  next
    assume "fat_amounts (nutrients_of raw) \<noteq> []"
    then show "\<exists>ni. res = Some ni
             \<and> as_opt_float (last (fat_amounts (nutrients_of raw))) = Inr (fat_grams ni)"
      by (rule 3)
  qed
qed
lemmas nutrition_eval =
  extract_nutrition_def extract_nutrition_info_def lower_name_def lower_def lower_char_def
  dict_get_def classify_nutrient_def starts_with_def nutrition_fields_def mk_nutrient_def

lemma format_single_recipe_nutrition_absent:
  assumes "\<not> truthy (dict_get recipe_data ''nutrition'' JNull)"
    and "format_single_recipe max_digits tc tu recipe_data = Inr r"
  shows "nutrition r = None"
proof -
  from assms(2) obtain ings nutr ins where
    n: "(if truthy (dict_get recipe_data ''nutrition'' JNull)
         then bind_e (py_getitem (JDict recipe_data) ''nutrition'') extract_nutrition_info
         else Inr None) = Inr nutr"
    and r: "\<exists>i t d ct tags prep cook total sv eq img src_url.
      r = \<lparr>id' = i, title = t, description = d, cuisine_type = ct, dietary_tags = tags,
          prep_time_minutes = prep, cook_time_minutes = cook, total_time_minutes = total,
          servings = sv, difficulty_level = ''intermediate'', ingredients = ings,
          instructions = ins, nutrition = nutr, equipment_required = eq, image_url = img,
          source_url = src_url, source = ''spoonacular'',
          created_at = tc, updated_at = tu\<rparr>"
    unfolding format_single_recipe_def bind_e_Inr_iff by blast
  from n assms(1) have "nutr = None" by simp
  with r show ?thesis by auto
qed

text \<open>
  C7, as the code has it. When \<open>extract_nutrition_info\<close> returns: the result is absent
  exactly when no nutrient of the payload has a name that a branch of the chain takes (so
  for a payload that is absent, empty or without nutrients); \<open>fat_grams\<close> is the amount
  of the last nutrient whose lower-cased name contains \<^verbatim>\<open>fat\<close> and none of \<^verbatim>\<open>saturated\<close>,
  \<^verbatim>\<open>calorie\<close>, \<^verbatim>\<open>protein\<close>, \<^verbatim>\<open>carbohydrate\<close>, and is absent when there is no such
  nutrient: a name containing \<^verbatim>\<open>saturated\<close> never sets it. A payload that is not true
  gives no nutrition info, and so does the detail record without one.
\<close>

theorem extract_nutrition_info_classification:
  "(\<forall>res. extract_nutrition_info raw = Inr res \<longrightarrow>
      (res = None \<longleftrightarrow>
         \<not> (\<exists>n \<in> set (nutrients_of raw). \<exists>nm. lower_name n = Inr nm \<and> classified nm))
      \<and> (fat_amounts (nutrients_of raw) = [] \<longrightarrow> (\<forall>ni. res = Some ni \<longrightarrow> fat_grams ni = None))
      \<and> (fat_amounts (nutrients_of raw) \<noteq> [] \<longrightarrow>
            (\<exists>ni. res = Some ni
               \<and> as_opt_float (last (fat_amounts (nutrients_of raw))) = Inr (fat_grams ni))))
   \<and> (\<forall>nm. contains ''saturated'' nm \<longrightarrow> \<not> sets_fat nm)
   \<and> (\<not> truthy raw \<longrightarrow> extract_nutrition_info raw = Inr None)
   \<and> (\<forall>r. \<not> truthy (dict_get recipe_data ''nutrition'' JNull)
          \<and> format_single_recipe max_digits tc tu recipe_data = Inr r \<longrightarrow> nutrition r = None)"
proof (intro conjI allI impI)
  fix res
  assume "extract_nutrition_info raw = Inr res"
  note f = extract_nutrition_info_fat [OF this]
  from f show "res = None \<longleftrightarrow>
         \<not> (\<exists>n \<in> set (nutrients_of raw). \<exists>nm. lower_name n = Inr nm \<and> classified nm)"
    by (rule conjunct1)
  from f have g: "(fat_amounts (nutrients_of raw) = [] \<longrightarrow> (\<forall>ni. res = Some ni \<longrightarrow> fat_grams ni = None))
      \<and> (fat_amounts (nutrients_of raw) \<noteq> [] \<longrightarrow>
            (\<exists>ni. res = Some ni
               \<and> as_opt_float (last (fat_amounts (nutrients_of raw))) = Inr (fat_grams ni)))"
    by (rule conjunct2)
  {
    fix ni
    assume "fat_amounts (nutrients_of raw) = []" "res = Some ni"
    with g show "fat_grams ni = None" by simp
  }
  {
    assume "fat_amounts (nutrients_of raw) \<noteq> []"
    with g show "\<exists>ni. res = Some ni
               \<and> as_opt_float (last (fat_amounts (nutrients_of raw))) = Inr (fat_grams ni)"
      by simp
  }
next
  fix nm
  assume "contains ''saturated'' nm"
  then show "\<not> sets_fat nm" by (simp add: sets_fat_def)
next
  assume "\<not> truthy raw"
  then show "extract_nutrition_info raw = Inr None"
    by (simp add: extract_nutrition_info_def)
next
  fix r
  assume "\<not> truthy (dict_get recipe_data ''nutrition'' JNull)
          \<and> format_single_recipe max_digits tc tu recipe_data = Inr r"
  then show "nutrition r = None"
    using format_single_recipe_nutrition_absent [of recipe_data max_digits tc tu r] by simp
qed

theorem extract_nutrition_info_classification_witness:
  "extract_nutrition_info fat_raw_nutrition
     = Inr (Some \<lparr>calories_per_serving = None, protein_grams = None, carbs_grams = None,
                  fat_grams = Some 12, fiber_grams = None, sugar_grams = None\<rparr>)
   \<and> fat_amounts (nutrients_of fat_raw_nutrition) = [JInt 12]
   \<and> sets_fat (lower ''Total Fat'') \<and> \<not> sets_fat (lower ''Saturated Fat'')
   \<and> contains ''saturated'' (lower ''Saturated Fat'')
   \<and> extract_nutrition_info saturated_fat_raw_nutrition = Inr None
   \<and> fat_amounts (nutrients_of saturated_fat_raw_nutrition) = []
   \<and> \<not> truthy (JDict []) \<and> extract_nutrition_info (JDict []) = Inr None"
proof -
  have a: "extract_nutrition_info fat_raw_nutrition
     = Inr (Some \<lparr>calories_per_serving = None, protein_grams = None, carbs_grams = None,
                  fat_grams = Some 12, fiber_grams = None, sugar_grams = None\<rparr>)"
    by (simp add: fat_raw_nutrition_def nutrition_eval)
  have b: "fat_amounts (nutrients_of fat_raw_nutrition) = [JInt 12]"
    by (simp add: fat_raw_nutrition_def fat_amounts_def fat_amount_def nutrients_of_def
          sets_fat_def nutrition_eval)
  have c: "sets_fat (lower ''Total Fat'')"
    by (simp add: sets_fat_def nutrition_eval)
  have s: "contains ''saturated'' (lower ''Saturated Fat'')"
    by (simp add: nutrition_eval)
  note inst = extract_nutrition_info_classification
    [of saturated_fat_raw_nutrition "[]" 4300 "0::nat" 0]
  from inst s have d: "\<not> sets_fat (lower ''Saturated Fat'')"
    by blast
  have e: "extract_nutrition_info saturated_fat_raw_nutrition = Inr None"
    by (simp add: saturated_fat_raw_nutrition_def nutrition_eval)
  have f: "fat_amounts (nutrients_of saturated_fat_raw_nutrition) = []"
    by (simp add: saturated_fat_raw_nutrition_def fat_amounts_def fat_amount_def nutrients_of_def
          sets_fat_def nutrition_eval)
  have g: "\<not> truthy (JDict [])"
    by simp
  have h: "extract_nutrition_info (JDict []) = Inr None"
    by (simp add: extract_nutrition_info_def)
  show ?thesis by (intro conjI a b c d s e f g h)
qed

text \<open>
  C7 as the claim words it fails: the name \<^verbatim>\<open>Calories from Fat\<close> contains \<^verbatim>\<open>fat\<close> and not
  \<^verbatim>\<open>saturated\<close>; the chain takes its first branch, and \<open>fat_grams\<close> stays absent.
\<close>

theorem calories_from_fat_counterexample:
  "contains ''fat'' (lower ''Calories from Fat'')
   \<and> \<not> contains ''saturated'' (lower ''Calories from Fat'')
   \<and> extract_nutrition_info calories_from_fat_raw_nutrition
     = Inr (Some \<lparr>calories_per_serving = Some 90, protein_grams = None, carbs_grams = None,
                  fat_grams = None, fiber_grams = None, sugar_grams = None\<rparr>)"
  by (simp add: calories_from_fat_raw_nutrition_def nutrition_eval)

text \<open>
  C8. The detail record with the empty list of cuisines: \<^verbatim>\<open>[][0]\<close> raises
  \<^verbatim>\<open>IndexError\<close>, and \<open>format_single_recipe\<close> returns no recipe.
\<close>

theorem format_single_recipe_empty_cuisines:
  "format_single_recipe max_str_digits (0::nat) 0 no_cuisine_detail = Inl IndexError"
  by (auto simp: no_cuisine_detail_def format_single_recipe_def dict_get_def py_str_int_def
        str_int_def str_nat.simps digit_def)

text \<open>
  C9. The nutrition mapping of a summary record is what \<open>extract_nutrition\<close> makes of the
  item's payload (\<^verbatim>\<open>{}\<close> when it has none). Its keys are among \<^verbatim>\<open>calories\<close>,
  \<^verbatim>\<open>protein\<close>, \<^verbatim>\<open>carbohydrates\<close>, \<^verbatim>\<open>fat\<close>, and are exactly those of the four that are the
  lower-cased name of some nutrient of the payload; a payload that is absent, not true,
  without \<^verbatim>\<open>nutrients\<close> or with an empty list of them gives the empty mapping.
\<close>

theorem format_recipe_nutrition_keys:
  "(\<forall>summary. format_recipe max_digits item = Inr summary \<longrightarrow>
      (\<exists>recipe nutr. item = JDict recipe
         \<and> extract_nutrition (dict_get recipe ''nutrition'' (JDict [])) = Inr nutr
         \<and> py_getitem summary ''nutrition'' = Inr (JDict nutr)))
   \<and> (\<forall>nutr. extract_nutrition raw = Inr nutr \<longrightarrow>
         fst ` set nutr \<subseteq> {''calories'', ''protein'', ''carbohydrates'', ''fat''}
         \<and> fst ` set nutr
             = {k \<in> set summary_names. \<exists>n \<in> set (nutrients_of raw). lower_name n = Inr k})
   \<and> (\<not> truthy raw \<longrightarrow> extract_nutrition raw = Inr [])
   \<and> (map_of kvs ''nutrients'' = None \<longrightarrow> extract_nutrition (JDict kvs) = Inr [])
   \<and> (map_of kvs ''nutrients'' = Some (JList []) \<longrightarrow> extract_nutrition (JDict kvs) = Inr [])
   \<and> (map_of kvs ''nutrition'' = None \<longrightarrow>
         extract_nutrition (dict_get kvs ''nutrition'' (JDict [])) = Inr [])"
proof (intro conjI allI impI)
  fix summary
  assume "format_recipe max_digits item = Inr summary"
  then show "\<exists>recipe nutr. item = JDict recipe
         \<and> extract_nutrition (dict_get recipe ''nutrition'' (JDict [])) = Inr nutr
         \<and> py_getitem summary ''nutrition'' = Inr (JDict nutr)"
    by (cases item) (auto simp: bind_e_Inr_iff)
next
  fix nutr
  assume "extract_nutrition raw = Inr nutr"
  from extract_nutrition_loop_keys [OF extract_nutrition_loop_of [OF this]]
  show k: "fst ` set nutr
      = {k \<in> set summary_names. \<exists>n \<in> set (nutrients_of raw). lower_name n = Inr k}"
    by simp
  show "fst ` set nutr \<subseteq> {''calories'', ''protein'', ''carbohydrates'', ''fat''}"
    unfolding k by (auto simp: summary_names_def)
next
  assume "\<not> truthy raw"
  then show "extract_nutrition raw = Inr []"
    by (simp add: extract_nutrition_def)
next
  assume "map_of kvs ''nutrients'' = None"
  then show "extract_nutrition (JDict kvs) = Inr []"
    by (simp add: extract_nutrition_def)
next
  assume "map_of kvs ''nutrients'' = Some (JList [])"
  then show "extract_nutrition (JDict kvs) = Inr []"
    by (auto simp: extract_nutrition_def)
next
  assume "map_of kvs ''nutrition'' = None"
  then show "extract_nutrition (dict_get kvs ''nutrition'' (JDict [])) = Inr []"
    by (simp add: extract_nutrition_def dict_get_def)
qed

theorem format_recipe_nutrition_keys_witness:
  "(\<exists>summary. format_recipe 4300 test_search_item = Inr summary
      \<and> py_getitem summary ''nutrition''
          = Inr (JDict [(''calories'', JInt 250), (''protein'', JInt 15),
                        (''carbohydrates'', JInt 30), (''fat'', JInt 10)])
      \<and> py_getitem summary ''id'' = Inr (JStr ''123'')
      \<and> py_getitem summary ''servings'' = Inr (JInt 1))
   \<and> lower_name (mk_nutrient ''Sodium'' 500) = Inr ''sodium''
   \<and> \<not> truthy JNull \<and> extract_nutrition JNull = Inr []
   \<and> extract_nutrition (JDict [(''nutrients'', JList [])]) = Inr []"
proof -
  note inst = format_recipe_nutrition_keys
    [of 4300 test_search_item JNull "[(''nutrients'', JList [])]"]
  have t: "\<not> truthy JNull" by simp
  with inst have n: "extract_nutrition JNull = Inr []" by blast
  have "map_of [(''nutrients'', JList [])] ''nutrients'' = Some (JList [])" by simp
  with inst have e: "extract_nutrition (JDict [(''nutrients'', JList [])]) = Inr []" by blast
  have l: "lower_name (mk_nutrient ''Sodium'' 500) = Inr ''sodium''"
    by (simp add: nutrition_eval)
  have s: "\<exists>summary. format_recipe 4300 test_search_item = Inr summary
      \<and> py_getitem summary ''nutrition''
          = Inr (JDict [(''calories'', JInt 250), (''protein'', JInt 15),
                        (''carbohydrates'', JInt 30), (''fat'', JInt 10)])
      \<and> py_getitem summary ''id'' = Inr (JStr ''123'')
      \<and> py_getitem summary ''servings'' = Inr (JInt 1)"
    by (simp add: test_search_item_def test_raw_nutrition_def extract_ingredients_def
          nutrition_eval py_str_int_def str_int_def str_nat.simps digit_def)
  show ?thesis by (intro conjI s l t n e)
qed

section \<open>Serialisation\<close>

lemma as_str_list_of_str_list: "as_str_list (of_str_list xs) = Inr xs"
proof -
  have "map_e as_str (map JStr xs) = Inr xs"
    by (induction xs) simp_all
  then show ?thesis by (simp add: of_str_list_def)
qed

lemma as_opt_str_of_opt_str: "as_opt_str (of_opt_str x) = Inr x"
  by (cases x) (simp_all add: of_opt_str_def)

lemma as_opt_float_of_opt_float: "as_opt_float (of_opt_float x) = Inr x"
  by (cases x) (simp_all add: of_opt_float_def)

lemma Ingredient_from_dict_to_dict: "Ingredient_from_dict (Ingredient_to_dict i) = Inr i"
  by (simp add: Ingredient_from_dict_def Ingredient_to_dict_def dict_get_def
        as_opt_str_of_opt_str)

lemma Ingredients_from_dict_to_dict:
  "map_e Ingredient_from_dict (map Ingredient_to_dict xs) = Inr xs"
  by (induction xs) (simp_all add: Ingredient_from_dict_to_dict)

lemma NutritionInfo_kwargs_to_dict: "NutritionInfo_kwargs (NutritionInfo_to_dict n) = Inr n"
  by (simp add: NutritionInfo_to_dict_def nutrition_fields_def dict_get_def
        as_opt_float_of_opt_float)

lemma truthy_NutritionInfo_to_dict: "truthy (NutritionInfo_to_dict n)"
  by (simp add: NutritionInfo_to_dict_def)

lemma nutrition_round_trip:
  "(if truthy (case nutrition r of Some n \<Rightarrow> NutritionInfo_to_dict n | None \<Rightarrow> JNull)
    then bind_e (NutritionInfo_kwargs
            (case nutrition r of Some n \<Rightarrow> NutritionInfo_to_dict n | None \<Rightarrow> JNull))
           (\<lambda>n. Inr (Some n))
    else Inr None) = Inr (nutrition r)"
  by (cases "nutrition r")
     (simp_all add: truthy_NutritionInfo_to_dict NutritionInfo_kwargs_to_dict
        del: NutritionInfo_kwargs.simps)

lemma Recipe_from_dict_to_dict:
  "Recipe_from_dict isoformat fromisoformat nc nu (Recipe_to_dict isoformat r)
     = bind_e (fromisoformat (isoformat (created_at r))) (\<lambda>c.
       bind_e (fromisoformat (isoformat (updated_at r))) (\<lambda>u.
         Inr (r\<lparr>created_at := c, updated_at := u\<rparr>)))"
proof -
  have rec: "\<lparr>id' = id' r, title = title r, description = description r,
      cuisine_type = cuisine_type r, dietary_tags = dietary_tags r,
      prep_time_minutes = prep_time_minutes r, cook_time_minutes = cook_time_minutes r,
      total_time_minutes = total_time_minutes r, servings = servings r,
      difficulty_level = difficulty_level r, ingredients = ingredients r,
      instructions = instructions r, nutrition = nutrition r,
      equipment_required = equipment_required r, image_url = image_url r,
      source_url = source_url r, source = source r,
      created_at = c, updated_at = u\<rparr> = r\<lparr>created_at := c, updated_at := u\<rparr>" for c u
    by (cases r) simp
  show ?thesis
  proof (cases "nutrition r")
    case None
    then show ?thesis
      by (simp add: Recipe_from_dict_def Recipe_from_items_def Recipe_to_dict_def dict_get_def
            as_str_list_of_str_list as_opt_str_of_opt_str Ingredients_from_dict_to_dict
            rec [symmetric] del: NutritionInfo_kwargs.simps)
  next
    case (Some n)
    then show ?thesis
      by (simp add: Recipe_from_dict_def Recipe_from_items_def Recipe_to_dict_def dict_get_def
            as_str_list_of_str_list as_opt_str_of_opt_str Ingredients_from_dict_to_dict
            truthy_NutritionInfo_to_dict NutritionInfo_kwargs_to_dict
            rec [symmetric] del: NutritionInfo_kwargs.simps)
  qed
qed

text \<open>
  C4. \<^verbatim>\<open>Recipe.from_dict(r.to_dict())\<close> is \<open>r\<close> with each timestamp replaced by what
  \<^verbatim>\<open>fromisoformat\<close> reads from its text, and fails only where that reading fails. So
  it is \<open>r\<close> itself when reading the text of a time gives the time back; and when
  reading it gives a time with the same text, the result equals \<open>r\<close> in every field but
  the two timestamps, which have the texts of those of \<open>r\<close>.
\<close>

theorem from_dict_to_dict_round_trip:
  "Recipe_from_dict isoformat fromisoformat nc nu (Recipe_to_dict isoformat r)
     = bind_e (fromisoformat (isoformat (created_at r))) (\<lambda>c.
       bind_e (fromisoformat (isoformat (updated_at r))) (\<lambda>u.
         Inr (r\<lparr>created_at := c, updated_at := u\<rparr>)))
   \<and> (fromisoformat (isoformat (created_at r)) = Inr (created_at r)
        \<and> fromisoformat (isoformat (updated_at r)) = Inr (updated_at r) \<longrightarrow>
      Recipe_from_dict isoformat fromisoformat nc nu (Recipe_to_dict isoformat r) = Inr r)
   \<and> ((\<forall>t. \<exists>t'. fromisoformat (isoformat t) = Inr t' \<and> isoformat t' = isoformat t) \<longrightarrow>
      (\<exists>r'. Recipe_from_dict isoformat fromisoformat nc nu (Recipe_to_dict isoformat r) = Inr r'
         \<and> r' = r\<lparr>created_at := created_at r', updated_at := updated_at r'\<rparr>
         \<and> isoformat (created_at r') = isoformat (created_at r)
         \<and> isoformat (updated_at r') = isoformat (updated_at r)))"
proof (intro conjI impI)
  show "Recipe_from_dict isoformat fromisoformat nc nu (Recipe_to_dict isoformat r)
     = bind_e (fromisoformat (isoformat (created_at r))) (\<lambda>c.
       bind_e (fromisoformat (isoformat (updated_at r))) (\<lambda>u.
         Inr (r\<lparr>created_at := c, updated_at := u\<rparr>)))"
    by (rule Recipe_from_dict_to_dict)
next
  assume "fromisoformat (isoformat (created_at r)) = Inr (created_at r)
        \<and> fromisoformat (isoformat (updated_at r)) = Inr (updated_at r)"
  then show "Recipe_from_dict isoformat fromisoformat nc nu (Recipe_to_dict isoformat r) = Inr r"
    by (simp add: Recipe_from_dict_to_dict)
next
  assume lib: "\<forall>t. \<exists>t'. fromisoformat (isoformat t) = Inr t' \<and> isoformat t' = isoformat t"
  from lib obtain c where c: "fromisoformat (isoformat (created_at r)) = Inr c"
      "isoformat c = isoformat (created_at r)"
    by blast
  from lib obtain u where u: "fromisoformat (isoformat (updated_at r)) = Inr u"
      "isoformat u = isoformat (updated_at r)"
    by blast
  have "Recipe_from_dict isoformat fromisoformat nc nu (Recipe_to_dict isoformat r)
      = Inr (r\<lparr>created_at := c, updated_at := u\<rparr>)"
    by (simp add: Recipe_from_dict_to_dict c u)
  with c u show "\<exists>r'. Recipe_from_dict isoformat fromisoformat nc nu (Recipe_to_dict isoformat r) = Inr r'
         \<and> r' = r\<lparr>created_at := created_at r', updated_at := updated_at r'\<rparr>
         \<and> isoformat (created_at r') = isoformat (created_at r)
         \<and> isoformat (updated_at r') = isoformat (updated_at r)"
    by simp
qed

theorem from_dict_to_dict_round_trip_witness:
  "(\<forall>t. \<exists>t'. text_fromisoformat (text_isoformat t) = Inr t'
          \<and> text_isoformat t' = text_isoformat t)
   \<and> Recipe_from_dict text_isoformat text_fromisoformat ([], 0) ([], 0)
       (Recipe_to_dict text_isoformat
          (original_recipe (''2024-01-01T12:00:00'', 5) (''2024-01-01T12:00:01'', 7)))
     = Inr (original_recipe (''2024-01-01T12:00:00'', 0) (''2024-01-01T12:00:01'', 0))
   \<and> text_fromisoformat (text_isoformat (''2024-01-01T12:00:00'', 0))
     = Inr (''2024-01-01T12:00:00'', 0)
   \<and> Recipe_from_dict text_isoformat text_fromisoformat ([], 0) ([], 0)
       (Recipe_to_dict text_isoformat
          (original_recipe (''2024-01-01T12:00:00'', 0) (''2024-01-01T12:00:00'', 0)))
     = Inr (original_recipe (''2024-01-01T12:00:00'', 0) (''2024-01-01T12:00:00'', 0))"
proof -
  have lib: "\<forall>t. \<exists>t'. text_fromisoformat (text_isoformat t) = Inr t'
          \<and> text_isoformat t' = text_isoformat t"
    by (simp add: text_fromisoformat_def text_isoformat_def)
  have a: "Recipe_from_dict text_isoformat text_fromisoformat ([], 0) ([], 0)
       (Recipe_to_dict text_isoformat
          (original_recipe (''2024-01-01T12:00:00'', 5) (''2024-01-01T12:00:01'', 7)))
     = Inr (original_recipe (''2024-01-01T12:00:00'', 0) (''2024-01-01T12:00:01'', 0))"
    unfolding from_dict_to_dict_round_trip
      [of text_isoformat text_fromisoformat "([], 0)" "([], 0)"
          "original_recipe (''2024-01-01T12:00:00'', 5) (''2024-01-01T12:00:01'', 7)",
       THEN conjunct1]
    by (simp add: text_fromisoformat_def text_isoformat_def original_recipe_def)
  have b: "text_fromisoformat (text_isoformat (''2024-01-01T12:00:00'', 0))
     = Inr (''2024-01-01T12:00:00'', 0)"
    by (simp add: text_fromisoformat_def text_isoformat_def)
  have c: "Recipe_from_dict text_isoformat text_fromisoformat ([], 0) ([], 0)
       (Recipe_to_dict text_isoformat
          (original_recipe (''2024-01-01T12:00:00'', 0) (''2024-01-01T12:00:00'', 0)))
     = Inr (original_recipe (''2024-01-01T12:00:00'', 0) (''2024-01-01T12:00:00'', 0))"
    using from_dict_to_dict_round_trip
      [of text_isoformat text_fromisoformat "([], 0)" "([], 0)"
          "original_recipe (''2024-01-01T12:00:00'', 0) (''2024-01-01T12:00:00'', 0)",
       THEN conjunct2, THEN conjunct1] b
    by (simp add: original_recipe_def)
  show ?thesis by (intro conjI lib a b c)
qed

section \<open>Scaling on the store\<close>

lemmas store_eval =
  scale_recipe_st_def alloc_def copy_list_def one_recipe_store_def read_recipe_def
  recipe_obj_at_def str_list_at_def ingredients_at_def ingredient_at_def nutrition_at_def
  set_nutrition_fat_grams_def scale_ingredient_def Let_def py_true_div_def
  float_overflow_bound_def py_str_int_def str_int_def str_nat.simps digit_def

text \<open>
  C2. On a recipe whose \<open>servings\<close> is zero or negative \<open>scale_recipe\<close> raises the
  \<^verbatim>\<open>ValueError\<close> of its first statement, whatever \<open>n\<close> is; on the store the call leaves
  every object as it was, the recipe among them.
\<close>

theorem scale_recipe_raises_on_nonpositive_servings:
  "(servings r \<le> 0 \<longrightarrow>
      scale_recipe max_digits tc tu r n
        = Inl (ValueError ''Cannot scale recipe with zero or negative servings''))
   \<and> (objs s self = Some (RecipeObj ro) \<and> servings ro \<le> 0 \<longrightarrow>
      scale_recipe_st max_digits tc tu self n s
        = (Inl (ValueError ''Cannot scale recipe with zero or negative servings''), s))"
  by (simp add: scale_recipe_def scale_recipe_st_def)

theorem scale_recipe_raises_on_nonpositive_servings_witness:
  "servings (original_recipe (0::nat) 0\<lparr>servings := 0\<rparr>) \<le> 0
   \<and> scale_recipe 4300 1 1 (original_recipe (0::nat) 0\<lparr>servings := 0\<rparr>) 4
       = Inl (ValueError ''Cannot scale recipe with zero or negative servings'')
   \<and> (\<exists>ro. objs (one_recipe_store (- 1)) 6 = Some (RecipeObj ro) \<and> servings ro \<le> 0)
   \<and> scale_recipe_st 4300 1 1 6 4 (one_recipe_store (- 1))
       = (Inl (ValueError ''Cannot scale recipe with zero or negative servings''),
          one_recipe_store (- 1))"
proof -
  have a: "servings (original_recipe (0::nat) 0\<lparr>servings := 0\<rparr>) \<le> 0"
    by simp
  obtain ro where b: "objs (one_recipe_store (- 1)) 6 = Some (RecipeObj ro)"
      and c: "servings ro \<le> 0"
    by (simp add: one_recipe_store_def)
  note inst = scale_recipe_raises_on_nonpositive_servings
    [of "original_recipe (0::nat) 0\<lparr>servings := 0\<rparr>" 4300 1 1 4 "one_recipe_store (- 1)" 6 ro]
  from inst a have d: "scale_recipe 4300 1 1 (original_recipe (0::nat) 0\<lparr>servings := 0\<rparr>) 4
       = Inl (ValueError ''Cannot scale recipe with zero or negative servings'')"
    by (rule conjunct1 [THEN mp])
  from inst b c have e: "scale_recipe_st 4300 1 1 6 4 (one_recipe_store (- 1))
       = (Inl (ValueError ''Cannot scale recipe with zero or negative servings''),
          one_recipe_store (- 1))"
    by blast
  from b c have f: "\<exists>ro. objs (one_recipe_store (- 1)) 6 = Some (RecipeObj ro) \<and> servings ro \<le> 0"
    by blast
  show ?thesis by (intro conjI a d f e)
qed

text \<open>
  C3. The recipe at address 6 of \<open>one_recipe_store 4\<close>, scaled to 8 servings: the new
  recipe has lists of its own (at 9, 7, 10 and 11) and a new ingredient, but its
  \<open>nutrition\<close> is the reference 5 of the original. Setting \<^verbatim>\<open>fat_grams\<close> through the
  scaled recipe changes the nutrition read through the original.
\<close>

theorem scale_recipe_st_shares_nutrition:
  "(case scale_recipe_st 4300 1 1 6 8 (one_recipe_store 4) of
      (Inr new, s') \<Rightarrow>
        new = 12
        \<and> map_option dietary_tags (recipe_obj_at s' 6) = Some 0
        \<and> map_option dietary_tags (recipe_obj_at s' new) = Some 9
        \<and> map_option ingredients (recipe_obj_at s' 6) = Some 2
        \<and> map_option ingredients (recipe_obj_at s' new) = Some 7
        \<and> map_option instructions (recipe_obj_at s' 6) = Some 3
        \<and> map_option instructions (recipe_obj_at s' new) = Some 10
        \<and> map_option equipment_required (recipe_obj_at s' 6) = Some 4
        \<and> map_option equipment_required (recipe_obj_at s' new) = Some 11
        \<and> map_option nutrition (recipe_obj_at s' 6) = Some (Some 5)
        \<and> map_option nutrition (recipe_obj_at s' new) = Some (Some 5)
        \<and> map_option nutrition (read_recipe s' 6)
            = Some (Some \<lparr>calories_per_serving = Some 300, protein_grams = None,
                 carbs_grams = None, fat_grams = None, fiber_grams = None,
                 sugar_grams = None\<rparr>)
        \<and> map_option nutrition (read_recipe (set_nutrition_fat_grams new (Some 1) s') 6)
            = Some (Some \<lparr>calories_per_serving = Some 300, protein_grams = None,
                 carbs_grams = None, fat_grams = Some 1, fiber_grams = None,
                 sugar_grams = None\<rparr>)
    | (Inl e, s') \<Rightarrow> False)"
  by (simp add: store_eval)

subsection \<open>The call on the store computes what \<open>scale_recipe\<close> computes on the contents\<close>

text \<open>
  For a recipe read off a well-formed store, on whose contents \<open>scale_recipe\<close> returns a
  recipe: the call on the store returns a new address, the recipe read there is that
  recipe, every object of the old store is as it was, and the new recipe's \<open>nutrition\<close>
  is the reference the original holds.
\<close>

lemma scale_ingredients_st_spec:
  assumes "list_all2 (\<lambda>a ing. a \<noteq> out \<and> a < next_addr sk
             \<and> objs sk a = Some (IngredientObj ing)) as ings"
    and "objs sk out = Some (IngList l)" and "out < next_addr sk"
  shows "\<exists>s' new. scale_ingredients_st sf out as sk = Inr s'
    \<and> objs s' out = Some (IngList (l @ new))
    \<and> next_addr s' = next_addr sk + length as
    \<and> (\<forall>a. a \<noteq> out \<and> a < next_addr sk \<longrightarrow> objs s' a = objs sk a)
    \<and> (\<forall>a. next_addr s' \<le> a \<longrightarrow> objs s' a = objs sk a)
    \<and> list_all2 (\<lambda>a ing. next_addr sk \<le> a \<and> a < next_addr s'
          \<and> objs s' a = Some (IngredientObj (scale_ingredient sf ing))) new ings"
  using assms
proof (induction as arbitrary: ings sk l)
  case Nil
  then show ?case by simp
next
  case (Cons a as ings0)
  from Cons.prems(1) obtain ing ings where ings0: "ings0 = ing # ings"
    and hd: "a \<noteq> out \<and> a < next_addr sk \<and> objs sk a = Some (IngredientObj ing)"
    and tl: "list_all2 (\<lambda>a ing. a \<noteq> out \<and> a < next_addr sk
             \<and> objs sk a = Some (IngredientObj ing)) as ings"
    by (auto simp: list_all2_Cons1)
  let ?n = "next_addr sk"
  let ?s1 = "sk\<lparr>objs := (objs sk)(?n \<mapsto> IngredientObj (scale_ingredient sf ing)),
               next_addr := Suc ?n\<rparr>"
  let ?s2 = "?s1\<lparr>objs := (objs ?s1)(out \<mapsto> IngList (l @ [?n]))\<rparr>"
  from hd have a: "a \<noteq> out" "a < ?n" "objs sk a = Some (IngredientObj ing)"
    by blast+
  from Cons.prems(2,3) have out: "objs sk out = Some (IngList l)" "out < ?n"
    by simp_all
  have step: "scale_ingredients_st sf out (a # as) sk = scale_ingredients_st sf out as ?s2"
    using a out by (simp add: alloc_def)
  have pre: "list_all2 (\<lambda>a ing. a \<noteq> out \<and> a < next_addr ?s2
             \<and> objs ?s2 a = Some (IngredientObj ing)) as ings"
    using tl by (rule list_all2_mono) auto
  have "objs ?s2 out = Some (IngList (l @ [?n]))" "out < next_addr ?s2"
    using out by simp_all
  from Cons.IH [OF pre this]
  obtain s' new where r: "scale_ingredients_st sf out as ?s2 = Inr s'"
    and o: "objs s' out = Some (IngList ((l @ [?n]) @ new))"
    and n: "next_addr s' = next_addr ?s2 + length as"
    and f: "\<forall>a. a \<noteq> out \<and> a < next_addr ?s2 \<longrightarrow> objs s' a = objs ?s2 a"
    and g: "\<forall>a. next_addr s' \<le> a \<longrightarrow> objs s' a = objs ?s2 a"
    and i: "list_all2 (\<lambda>a ing. next_addr ?s2 \<le> a \<and> a < next_addr s'
          \<and> objs s' a = Some (IngredientObj (scale_ingredient sf ing))) new ings"
    by blast
  have 1: "objs s' out = Some (IngList (l @ (?n # new)))"
    using o by simp
  have 2: "next_addr s' = ?n + length (a # as)"
    using n by simp
  have 3: "\<forall>b. b \<noteq> out \<and> b < ?n \<longrightarrow> objs s' b = objs sk b"
    using f by simp
  have 4: "\<forall>b. next_addr s' \<le> b \<longrightarrow> objs s' b = objs sk b"
    using g n out by auto
  have "objs s' ?n = objs ?s2 ?n"
    using f out by simp
  then have 5: "objs s' ?n = Some (IngredientObj (scale_ingredient sf ing))"
    using out by simp
  have 6: "list_all2 (\<lambda>a ing. ?n \<le> a \<and> a < next_addr s'
          \<and> objs s' a = Some (IngredientObj (scale_ingredient sf ing))) new ings"
    using i by (rule list_all2_mono) auto
  have "list_all2 (\<lambda>a ing. ?n \<le> a \<and> a < next_addr s'
          \<and> objs s' a = Some (IngredientObj (scale_ingredient sf ing))) (?n # new) (ing # ings)"
    using 5 6 n by simp
  with step r 1 2 3 4 show ?case
    unfolding ings0 by (intro exI [of _ s'] exI [of _ "?n # new"]) simp
qed

lemma all_some_map:
  "list_all2 (\<lambda>a y. f a = Some y) as ys \<Longrightarrow> all_some (map f as) = Some ys"
  by (induction as ys rule: list_all2_induct) simp_all

lemma all_some_Some:
  "all_some xs = Some ys \<Longrightarrow> list_all2 (\<lambda>x y. x = Some y) xs ys"
  by (induction xs arbitrary: ys) (auto split: option.splits)

lemma store_ok_bound: "store_ok s \<Longrightarrow> objs s a = Some ob \<Longrightarrow> a < next_addr s"
  unfolding store_ok_def by (metis not_le_imp_less option.distinct(1))

lemma read_recipeD:
  assumes "read_recipe s self = Some r"
  obtains ro tags ias ings ins nutr eq where
    "objs s self = Some (RecipeObj ro)"
    "objs s (dietary_tags ro) = Some (StrList tags)"
    "objs s (ingredients ro) = Some (IngList ias)"
    "all_some (map (ingredient_at s) ias) = Some ings"
    "objs s (instructions ro) = Some (StrList ins)"
    "nutrition_at s (nutrition ro) = Some nutr"
    "objs s (equipment_required ro) = Some (StrList eq)"
    "r = \<lparr>id' = id' ro, title = title ro, description = description ro,
             cuisine_type = cuisine_type ro, dietary_tags = tags,
             prep_time_minutes = prep_time_minutes ro,
             cook_time_minutes = cook_time_minutes ro,
             total_time_minutes = total_time_minutes ro,
             servings = servings ro, difficulty_level = difficulty_level ro,
             ingredients = ings, instructions = ins, nutrition = nutr,
             equipment_required = eq, image_url = image_url ro,
             source_url = source_url ro, source = source ro,
             created_at = created_at ro, updated_at = updated_at ro\<rparr>"
proof -
  from assms obtain ro where 1: "recipe_obj_at s self = Some ro"
    by (auto simp: read_recipe_def split: option.splits)
  from assms 1 obtain tags where 2: "str_list_at s (dietary_tags ro) = Some tags"
    by (auto simp: read_recipe_def split: option.splits)
  from assms 1 2 obtain ings where 3: "ingredients_at s (ingredients ro) = Some ings"
    by (auto simp: read_recipe_def split: option.splits)
  from assms 1 2 3 obtain ins where 4: "str_list_at s (instructions ro) = Some ins"
    by (auto simp: read_recipe_def split: option.splits)
  from assms 1 2 3 4 obtain nutr where 5: "nutrition_at s (nutrition ro) = Some nutr"
    by (auto simp: read_recipe_def split: option.splits)
  from assms 1 2 3 4 5 obtain eq where 6: "str_list_at s (equipment_required ro) = Some eq"
    by (auto simp: read_recipe_def split: option.splits)
  from assms 1 2 3 4 5 6 have 7: "r = \<lparr>id' = id' ro, title = title ro, description = description ro,
             cuisine_type = cuisine_type ro, dietary_tags = tags,
             prep_time_minutes = prep_time_minutes ro,
             cook_time_minutes = cook_time_minutes ro,
             total_time_minutes = total_time_minutes ro,
             servings = servings ro, difficulty_level = difficulty_level ro,
             ingredients = ings, instructions = ins, nutrition = nutr,
             equipment_required = eq, image_url = image_url ro,
             source_url = source_url ro, source = source ro,
             created_at = created_at ro, updated_at = updated_at ro\<rparr>"
    by (simp add: read_recipe_def)
  from 1 have a: "objs s self = Some (RecipeObj ro)"
    by (auto simp: recipe_obj_at_def split: option.splits obj.splits)
  from 2 have b: "objs s (dietary_tags ro) = Some (StrList tags)"
    by (auto simp: str_list_at_def split: option.splits obj.splits)
  from 3 obtain ias where c: "objs s (ingredients ro) = Some (IngList ias)"
      and d: "all_some (map (ingredient_at s) ias) = Some ings"
    by (auto simp: ingredients_at_def split: option.splits obj.splits)
  from 4 have e: "objs s (instructions ro) = Some (StrList ins)"
    by (auto simp: str_list_at_def split: option.splits obj.splits)
  from 6 have f: "objs s (equipment_required ro) = Some (StrList eq)"
    by (auto simp: str_list_at_def split: option.splits obj.splits)
  from a b c d e 5 f 7 show ?thesis by (rule that)
qed

lemma ingredient_atD: "ingredient_at s a = Some i \<Longrightarrow> objs s a = Some (IngredientObj i)"
  by (auto simp: ingredient_at_def split: option.splits obj.splits)

lemma scale_recipe_st_refines:
  assumes ok: "store_ok s" and rd: "read_recipe s self = Some r"
    and ret: "scale_recipe max_digits tc tu r n = Inr r'"
  shows "\<exists>new s'. scale_recipe_st max_digits tc tu self n s = (Inr new, s')
     \<and> read_recipe s' new = Some r'
     \<and> (\<forall>a. a < next_addr s \<longrightarrow> objs s' a = objs s a)
     \<and> next_addr s \<le> new
     \<and> map_option nutrition (recipe_obj_at s' new) = map_option nutrition (recipe_obj_at s self)"
proof -
  from rd obtain ro tags ias ings ins nutr eq where
    ro: "objs s self = Some (RecipeObj ro)"
    and tg: "objs s (dietary_tags ro) = Some (StrList tags)"
    and il: "objs s (ingredients ro) = Some (IngList ias)"
    and ig: "all_some (map (ingredient_at s) ias) = Some ings"
    and it: "objs s (instructions ro) = Some (StrList ins)"
    and nu: "nutrition_at s (nutrition ro) = Some nutr"
    and eqp: "objs s (equipment_required ro) = Some (StrList eq)"
    and r: "r = \<lparr>id' = id' ro, title = title ro, description = description ro,
             cuisine_type = cuisine_type ro, dietary_tags = tags,
             prep_time_minutes = prep_time_minutes ro,
             cook_time_minutes = cook_time_minutes ro,
             total_time_minutes = total_time_minutes ro,
             servings = servings ro, difficulty_level = difficulty_level ro,
             ingredients = ings, instructions = ins, nutrition = nutr,
             equipment_required = eq, image_url = image_url ro,
             source_url = source_url ro, source = source ro,
             created_at = created_at ro, updated_at = updated_at ro\<rparr>"
    by (rule read_recipeD)
  from ret have pos: "0 < servings r"
    by (auto simp: scale_recipe_def split: if_splits)
  with ret obtain sf tx where sf: "py_true_div n (servings r) = Inr sf"
    and tx: "py_str_int max_digits n = Inr tx"
    by (auto simp: scale_recipe_def bind_e_Inr_iff Let_def)
  define out where "out = next_addr s"
  define s1 where "s1 = s\<lparr>objs := (objs s)(out \<mapsto> IngList []), next_addr := Suc out\<rparr>"
  note bound = store_ok_bound [OF ok]
  have lt: "dietary_tags ro < out" "ingredients ro < out" "instructions ro < out"
      "equipment_required ro < out"
    using bound [OF tg] bound [OF il] bound [OF it] bound [OF eqp] by (simp_all add: out_def)
  have sv: "servings ro = servings r" "0 < servings ro"
    using pos by (simp_all add: r)
  from all_some_Some [OF ig]
  have "list_all2 (\<lambda>a ing. objs s a = Some (IngredientObj ing)) ias ings"
    by (simp add: list_all2_map1) (erule list_all2_mono, rule ingredient_atD, assumption)
  then have pre: "list_all2 (\<lambda>a ing. a \<noteq> out \<and> a < next_addr s1
             \<and> objs s1 a = Some (IngredientObj ing)) ias ings"
  proof (rule list_all2_mono)
    fix a ing
    assume a: "objs s a = Some (IngredientObj ing)"
    from bound [OF a] have "a < out" by (simp add: out_def)
    with a show "a \<noteq> out \<and> a < next_addr s1 \<and> objs s1 a = Some (IngredientObj ing)"
      by (simp add: s1_def)
  qed
  have "objs s1 out = Some (IngList [])" "out < next_addr s1"
    by (simp_all add: s1_def)
  from scale_ingredients_st_spec [OF pre this, of sf]
  obtain s2 new where
    loop: "scale_ingredients_st sf out ias s1 = Inr s2"
    and o2: "objs s2 out = Some (IngList new)"
    and n2: "next_addr s2 = Suc out + length ias"
    and f2: "\<forall>a. a \<noteq> out \<and> a < Suc out \<longrightarrow> objs s2 a = objs s1 a"
    and g2: "list_all2 (\<lambda>a ing. Suc out \<le> a \<and> a < next_addr s2
          \<and> objs s2 a = Some (IngredientObj (scale_ingredient sf ing))) new ings"
    by (auto simp: s1_def)
  have old2: "objs s2 a = objs s a" if "a < out" for a
    using f2 that by (simp add: s1_def)
  define m where "m = next_addr s2"
  define ro' :: "'a recipe_obj" where "ro' =
     \<lparr>id' = id' ro @ ''_scaled_'' @ tx,
      title = title ro @ '' (serves '' @ tx @ '')'',
      description = description ro, cuisine_type = cuisine_type ro,
      dietary_tags = m,
      prep_time_minutes = prep_time_minutes ro, cook_time_minutes = cook_time_minutes ro,
      total_time_minutes = total_time_minutes ro, servings = n,
      difficulty_level = difficulty_level ro, ingredients = out,
      instructions = Suc m, nutrition = nutrition ro,
      equipment_required = Suc (Suc m), image_url = image_url ro,
      source_url = source_url ro, source = source ro,
      created_at = tc, updated_at = tu\<rparr>"
  define s3 where "s3 = s2\<lparr>objs := (objs s2)(m \<mapsto> StrList tags), next_addr := Suc m\<rparr>"
  define s4 where "s4 = s3\<lparr>objs := (objs s3)(Suc m \<mapsto> StrList ins),
      next_addr := Suc (Suc m)\<rparr>"
  define s5 where "s5 = s4\<lparr>objs := (objs s4)(Suc (Suc m) \<mapsto> StrList eq),
      next_addr := Suc (Suc (Suc m))\<rparr>"
  define s6 where "s6 = s5\<lparr>objs := (objs s5)(Suc (Suc (Suc m)) \<mapsto> RecipeObj ro'),
      next_addr := Suc (Suc (Suc (Suc m)))\<rparr>"
  have m: "out < m"
    by (simp add: m_def n2)
  have il1: "objs s1 (ingredients ro) = Some (IngList ias)"
    using lt il by (simp add: s1_def)
  have c1: "copy_list (dietary_tags ro) s2 = Inr (m, s3)"
    using lt tg by (simp add: copy_list_def alloc_def old2 s3_def m_def)
  have c2: "copy_list (instructions ro) s3 = Inr (Suc m, s4)"
    using lt it m by (simp add: copy_list_def alloc_def old2 s3_def s4_def)
  have c3: "copy_list (equipment_required ro) s4 = Inr (Suc (Suc m), s5)"
    using lt eqp m by (simp add: copy_list_def alloc_def old2 s3_def s4_def s5_def)
  have a6: "alloc (RecipeObj ro') s5 = (Suc (Suc (Suc m)), s6)"
    by (simp add: alloc_def s6_def s5_def)
  have a1: "alloc (IngList []) s = (out, s1)"
    by (simp add: alloc_def s1_def out_def)
  have run: "scale_recipe_st max_digits tc tu self n s = (Inr (Suc (Suc (Suc m))), s6)"
    using sv(2) sf
    by (simp add: scale_recipe_st_def ro sv(1) tx a1 il1 loop c1 c2 c3
          a6 [unfolded ro'_def, simplified])
  have objs6: "objs s6 = (objs s2)(m \<mapsto> StrList tags, Suc m \<mapsto> StrList ins,
      Suc (Suc m) \<mapsto> StrList eq, Suc (Suc (Suc m)) \<mapsto> RecipeObj ro')"
    by (simp add: s6_def s5_def s4_def s3_def)
  have old6: "objs s6 a = objs s a" if "a < out" for a
    using that m by (simp add: objs6 old2)
  have new6: "list_all2 (\<lambda>a ing. ingredient_at s6 a = Some (scale_ingredient sf ing)) new ings"
    using g2
  proof (rule list_all2_mono)
    fix a ing
    assume "Suc out \<le> a \<and> a < next_addr s2
          \<and> objs s2 a = Some (IngredientObj (scale_ingredient sf ing))"
    then show "ingredient_at s6 a = Some (scale_ingredient sf ing)"
      by (simp add: ingredient_at_def objs6 m_def)
  qed
  have ing6: "ingredients_at s6 out = Some (map (scale_ingredient sf) ings)"
  proof -
    from new6 have "list_all2 (\<lambda>a y. ingredient_at s6 a = Some y) new
        (map (scale_ingredient sf) ings)"
      by (simp add: list_all2_map2)
    from all_some_map [OF this] m o2 show ?thesis
      by (simp add: ingredients_at_def objs6)
  qed
  have nu6: "nutrition_at s6 (nutrition ro) = Some nutr"
  proof (cases "nutrition ro")
    case None
    with nu show ?thesis by (simp add: nutrition_at_def)
  next
    case (Some b)
    with nu obtain ob where "objs s b = Some ob"
      by (auto simp: nutrition_at_def split: option.splits)
    from bound [OF this] have "b < out" by (simp add: out_def)
    from old6 [OF this] nu Some show ?thesis
      by (simp add: nutrition_at_def)
  qed
  have val: "scale_recipe max_digits tc tu r n = Inr
     \<lparr>id' = id' ro @ ''_scaled_'' @ tx,
      title = title ro @ '' (serves '' @ tx @ '')'',
      description = description ro, cuisine_type = cuisine_type ro,
      dietary_tags = tags,
      prep_time_minutes = prep_time_minutes ro, cook_time_minutes = cook_time_minutes ro,
      total_time_minutes = total_time_minutes ro, servings = n,
      difficulty_level = difficulty_level ro,
      ingredients = map (scale_ingredient sf) ings,
      instructions = ins, nutrition = nutr,
      equipment_required = eq, image_url = image_url ro,
      source_url = source_url ro, source = source ro,
      created_at = tc, updated_at = tu\<rparr>"
    using sv(2) sf tx by (simp add: scale_recipe_def r Let_def)
  have obj6: "recipe_obj_at s6 (Suc (Suc (Suc m))) = Some ro'"
    by (simp add: recipe_obj_at_def objs6)
  have lists6: "str_list_at s6 m = Some tags" "str_list_at s6 (Suc m) = Some ins"
      "str_list_at s6 (Suc (Suc m)) = Some eq"
    by (simp_all add: str_list_at_def objs6)
  have read: "read_recipe s6 (Suc (Suc (Suc m))) = Some
     \<lparr>id' = id' ro @ ''_scaled_'' @ tx,
      title = title ro @ '' (serves '' @ tx @ '')'',
      description = description ro, cuisine_type = cuisine_type ro,
      dietary_tags = tags,
      prep_time_minutes = prep_time_minutes ro, cook_time_minutes = cook_time_minutes ro,
      total_time_minutes = total_time_minutes ro, servings = n,
      difficulty_level = difficulty_level ro,
      ingredients = map (scale_ingredient sf) ings,
      instructions = ins, nutrition = nutr,
      equipment_required = eq, image_url = image_url ro,
      source_url = source_url ro, source = source ro,
      created_at = tc, updated_at = tu\<rparr>"
    unfolding read_recipe_def obj6
    by (simp add: ro'_def lists6 ing6 nu6 [unfolded ro'_def])
  have frame: "\<forall>a. a < next_addr s \<longrightarrow> objs s6 a = objs s a"
    using old6 by (simp add: out_def)
  have fresh: "next_addr s \<le> Suc (Suc (Suc m))"
    using m by (simp add: out_def)
  have shared: "map_option nutrition (recipe_obj_at s6 (Suc (Suc (Suc m))))
      = map_option nutrition (recipe_obj_at s self)"
  proof -
    have "recipe_obj_at s self = Some ro"
      by (simp add: recipe_obj_at_def ro)
    moreover have "nutrition ro' = nutrition ro"
      by (simp add: ro'_def)
    ultimately show ?thesis
      by (simp add: obj6)
  qed
  from val ret read have "read_recipe s6 (Suc (Suc (Suc m))) = Some r'"
    by simp
  with run frame fresh shared show ?thesis
    by blast
qed

end
